theory Spec2Isabelle
  imports Complex_Main "HOL-Library.Char_ord" "HOL-Library.List_Lexorder" "HOL-Library.Multiset"
begin

section \<open>Values shared by the queue and the validator\<close>

text \<open>
  A Python \<open>str\<close> is modelled as the list of its code points, for code points below 256
  (an Isabelle \<open>char\<close>); \<open>bytes\<close> is a list of octets, also held in \<open>char\<close>.
  JSON-shaped Python values (what \<open>json.loads\<close> returns, what an extractor's update map
  holds) are the datatype \<open>json\<close>; a \<open>dict\<close> with string keys is an association list in
  insertion order with distinct keys.
\<close>

type_synonym bytes = "char list"

datatype json =
    JNull
  | JBool bool
  | JNum rat
  | JStr string
  | JArr "json list"
  | JObj "(string \<times> json) list"

type_synonym 'v pydict = "(string \<times> 'v) list"

text \<open>\<open>d[k] = v\<close>: an existing key keeps its position, a new key goes last.\<close>

fun dict_set :: "'v pydict \<Rightarrow> string \<Rightarrow> 'v \<Rightarrow> 'v pydict" where
  "dict_set [] k v = [(k, v)]"
| "dict_set ((k', v') # d) k v = (if k' = k then (k, v) # d else (k', v') # dict_set d k v)"

text \<open>\<open>d.get(k)\<close>.\<close>

fun dict_get :: "'v pydict \<Rightarrow> string \<Rightarrow> 'v option" where
  "dict_get [] k = None"
| "dict_get ((k', v') # d) k = (if k' = k then Some v' else dict_get d k)"

text \<open>\<open>{**d, **e}\<close>: the entries of \<open>e\<close> are stored into \<open>d\<close> one after the other.\<close>

fun dict_merge :: "'v pydict \<Rightarrow> 'v pydict \<Rightarrow> 'v pydict" where
  "dict_merge d [] = d"
| "dict_merge d ((k, v) # e) = dict_merge (dict_set d k v) e"

text \<open>\<open>d.pop(k, None)\<close>: the value removed (or \<open>None\<close>) and the remaining dict.\<close>

definition dict_pop :: "'v pydict \<Rightarrow> string \<Rightarrow> 'v option \<times> 'v pydict" where
  "dict_pop d k = (dict_get d k, filter (\<lambda>p. fst p \<noteq> k) d)"

text \<open>\<open>s.encode("utf-8")\<close> on code points below 256: one octet below 128, two from there on.\<close>

definition utf8_char :: "char \<Rightarrow> bytes" where
  "utf8_char c =
     (let n = (of_char c :: nat) in
      if n < 128 then [c]
      else [char_of (192 + n div 64), char_of (128 + n mod 64)])"

definition utf8_encode :: "string \<Rightarrow> bytes" where
  "utf8_encode s = concat (map utf8_char s)"

section \<open>The encrypted queue (local/services/queue_manager.py)\<close>

subsection \<open>External libraries\<close>

text \<open>The exceptions that the modelled code can raise.\<close>

datatype error = DecryptError | JSONDecodeError | TypeError | AttributeError | KeyError
  | ValidationError | UnboundLocalError

text \<open>
  Tink's AEAD primitive and the \<open>json\<close> module are libraries outside the repository;
  \<open>TinkAEAD.encrypt\<close> and \<open>TinkAEAD.decrypt\<close> only delegate to the primitive. They are
  parameters of the model. Encryption draws a random nonce, which is an explicit argument;
  decryption and \<open>json.loads\<close> raise on bad input, which is the value \<open>None\<close>.
  So are pydantic's coercion of a value to \<open>float\<close> and to \<open>datetime\<close>, and the text
  \<open>str(e)\<close> of an exception.
\<close>

record libs =
  aead_encrypt :: "nat \<Rightarrow> bytes \<Rightarrow> bytes \<Rightarrow> bytes"
  aead_decrypt :: "bytes \<Rightarrow> bytes \<Rightarrow> bytes option"
  json_dumps :: "json \<Rightarrow> string"
  json_loads :: "bytes \<Rightarrow> json option"
  pydantic_float :: "json \<Rightarrow> rat option"
  pydantic_datetime :: "string \<Rightarrow> string option"
  exc_str :: "error \<Rightarrow> string"

text \<open>The fields of \<open>LocalSettings\<close> (local/config.py) that the queue and the worker read.\<close>

record settings =
  DEVICE_ID :: string
  MODE :: string
  SYNC_BATCH_SIZE :: int

subsection \<open>The table\<close>

text \<open>
  Modelled from the spec: local/db/schema.sql, which declares the table \<open>queue_items\<close>,
  is not among the sources. The spec keys a row by \<open>note_id\<close> (\<open>INSERT OR REPLACE\<close>
  replaces the row of that \<open>note_id\<close>), lets \<open>fail_reason\<close> be null and starts a fresh
  row with no retry bookkeeping: \<open>fail_reason\<close> NULL and \<open>retry_count\<close> 0, as the
  repository's test reads \<open>retry_count = 1\<close> after one \<open>mark_failed\<close>.
  A timestamp is the text that SQLite's \<open>datetime('now')\<close> returns; the clock is an
  argument \<open>now\<close> of every writing operation. The table is the list of its rows in
  insertion order.
\<close>

record queue_item =
  note_id :: string
  idempotency_key :: string
  mode :: string
  ciphertext :: bytes
  status :: string
  fail_reason :: "string option"
  retry_count :: int
  created_at :: string
  updated_at :: string

type_synonym queue_db = "queue_item list"

text \<open>\<open>UPDATE queue_items SET ... WHERE note_id=?\<close>.\<close>

definition update_where_note_id ::
  "(queue_item \<Rightarrow> queue_item) \<Rightarrow> string \<Rightarrow> queue_db \<Rightarrow> queue_db" where
  "update_where_note_id f nid db = map (\<lambda>r. if note_id r = nid then f r else r) db"

text \<open>\<open>INSERT OR REPLACE INTO queue_items\<close>: the row of the same key is deleted, the new
  row is inserted.\<close>

definition insert_or_replace :: "queue_item \<Rightarrow> queue_db \<Rightarrow> queue_db" where
  "insert_or_replace r db = filter (\<lambda>x. note_id x \<noteq> note_id r) db @ [r]"

subsection \<open>Operations\<close>

definition make_idempotency_key :: "settings \<Rightarrow> string \<Rightarrow> string \<Rightarrow> string" where
  "make_idempotency_key st nid uuid4 = DEVICE_ID st @ '':'' @ nid @ '':'' @ uuid4"

text \<open>The class \<open>TinkAEAD\<close> (local/services/tink_crypto.py): both methods hand their
  arguments to the primitive; a failed decryption is the primitive's exception.\<close>

definition TinkAEAD_encrypt :: "libs \<Rightarrow> nat \<Rightarrow> bytes \<Rightarrow> bytes \<Rightarrow> bytes" where
  "TinkAEAD_encrypt L nonce plaintext associated_data =
     aead_encrypt L nonce plaintext associated_data"

definition TinkAEAD_decrypt :: "libs \<Rightarrow> bytes \<Rightarrow> bytes \<Rightarrow> error + bytes" where
  "TinkAEAD_decrypt L ct associated_data =
     (case aead_decrypt L ct associated_data of
        None \<Rightarrow> Inl DecryptError
      | Some plaintext \<Rightarrow> Inr plaintext)"


text \<open>The first lines of \<open>enqueue\<close>: the payload is serialised, encoded and encrypted with the
  octets of the \<open>note_id\<close> as associated data.\<close>

definition encrypt_payload :: "libs \<Rightarrow> nat \<Rightarrow> string \<Rightarrow> json \<Rightarrow> bytes" where
  "encrypt_payload L nonce nid payload =
     TinkAEAD_encrypt L nonce (utf8_encode (json_dumps L payload)) (utf8_encode nid)"

text \<open>\<open>enqueue\<close>: \<open>uuid4\<close> is the token that \<open>uuid.uuid4()\<close> draws, \<open>nonce\<close> the randomness
  of the encryption. Returns the idempotency key and the new table.\<close>

definition enqueue ::
  "libs \<Rightarrow> settings \<Rightarrow> string \<Rightarrow> nat \<Rightarrow> string \<Rightarrow> string \<Rightarrow> json \<Rightarrow> string \<Rightarrow> queue_db
     \<Rightarrow> string \<times> queue_db" where
  "enqueue L st uuid4 nonce now nid payload md db =
     (let key = make_idempotency_key st nid uuid4;
          ct = encrypt_payload L nonce nid payload
      in (key,
          insert_or_replace
            \<lparr>note_id = nid, idempotency_key = key, mode = md, ciphertext = ct,
             status = ''queued'', fail_reason = None, retry_count = 0,
             created_at = now, updated_at = now\<rparr> db))"

text \<open>\<open>get_pending\<close>: \<open>WHERE status = 'queued' ORDER BY created_at ASC LIMIT ?\<close>; a negative
  limit is no limit in SQLite. Rows of equal \<open>created_at\<close> stay in insertion order.\<close>

definition sql_limit :: "int \<Rightarrow> 'a list \<Rightarrow> 'a list" where
  "sql_limit n xs = (if n < 0 then xs else take (nat n) xs)"

definition get_pending :: "int \<Rightarrow> queue_db \<Rightarrow> queue_item list" where
  "get_pending limit db =
     sql_limit limit (sort_key created_at (filter (\<lambda>r. status r = ''queued'') db))"

definition decrypt_payload :: "libs \<Rightarrow> string \<Rightarrow> bytes \<Rightarrow> error + json" where
  "decrypt_payload L nid ct =
     (case TinkAEAD_decrypt L ct (utf8_encode nid) of
        Inl e \<Rightarrow> Inl e
      | Inr plaintext \<Rightarrow>
          (case json_loads L plaintext of
             None \<Rightarrow> Inl JSONDecodeError
           | Some j \<Rightarrow> Inr j))"

definition mark_syncing :: "string \<Rightarrow> string \<Rightarrow> queue_db \<Rightarrow> queue_db" where
  "mark_syncing now nid db =
     update_where_note_id (\<lambda>r. r\<lparr>status := ''syncing'', updated_at := now\<rparr>) nid db"

definition mark_synced :: "string \<Rightarrow> string \<Rightarrow> queue_db \<Rightarrow> queue_db" where
  "mark_synced now nid db =
     update_where_note_id (\<lambda>r. r\<lparr>status := ''synced'', updated_at := now\<rparr>) nid db"

definition mark_failed :: "string \<Rightarrow> string \<Rightarrow> string \<Rightarrow> queue_db \<Rightarrow> queue_db" where
  "mark_failed now nid reason db =
     update_where_note_id
       (\<lambda>r. r\<lparr>status := ''failed'', fail_reason := Some reason,
              retry_count := retry_count r + 1, updated_at := now\<rparr>) nid db"

definition reset_for_retry :: "string \<Rightarrow> string \<Rightarrow> queue_db \<Rightarrow> queue_db" where
  "reset_for_retry now nid db =
     update_where_note_id (\<lambda>r. r\<lparr>status := ''queued'', updated_at := now\<rparr>) nid db"

text \<open>The status of the row filed under a \<open>note_id\<close>, if there is one.\<close>

definition status_of :: "queue_db \<Rightarrow> string \<Rightarrow> string option" where
  "status_of db nid = map_option status (find (\<lambda>r. note_id r = nid) db)"

section \<open>The record validator (shared/validator.py, shared/schemas.py, shared/constants.py)\<close>

subsection \<open>Strings\<close>

text \<open>Python's \<open>str.isspace\<close> on code points below 256: U+0009..U+000D, U+001C..U+0020,
  U+0085 and U+00A0.\<close>

definition is_space :: "char \<Rightarrow> bool" where
  "is_space c =
     (let n = (of_char c :: nat) in
      (9 \<le> n \<and> n \<le> 13) \<or> (28 \<le> n \<and> n \<le> 32) \<or> n = 133 \<or> n = 160)"

text \<open>\<open>s.strip()\<close>.\<close>

definition strip :: "string \<Rightarrow> string" where
  "strip s = rev (dropWhile is_space (rev (dropWhile is_space s)))"

text \<open>\<open>s.split()\<close>: the maximal runs of non-whitespace; \<open>cur\<close> is the run being read,
  reversed.\<close>

fun split_from :: "string \<Rightarrow> string \<Rightarrow> string list" where
  "split_from cur [] = (if cur = [] then [] else [rev cur])"
| "split_from cur (c # cs) =
     (if is_space c
      then (if cur = [] then split_from [] cs else rev cur # split_from [] cs)
      else split_from (c # cur) cs)"

definition split :: "string \<Rightarrow> string list" where
  "split s = split_from [] s"

text \<open>\<open>s.lower()\<close> on code points below 256: A..Z and U+00C0..U+00DE without U+00D7
  move up by 32.\<close>

definition lower_char :: "char \<Rightarrow> char" where
  "lower_char c =
     (let n = (of_char c :: nat) in
      if (65 \<le> n \<and> n \<le> 90) \<or> (192 \<le> n \<and> n \<le> 222 \<and> n \<noteq> 215)
      then char_of (n + 32) else c)"

definition lower :: "string \<Rightarrow> string" where
  "lower s = map lower_char s"

text \<open>\<open>sub in s\<close> on strings.\<close>

fun is_prefix :: "string \<Rightarrow> string \<Rightarrow> bool" where
  "is_prefix [] s = True"
| "is_prefix (a # as) [] = False"
| "is_prefix (a # as) (c # cs) = (a = c \<and> is_prefix as cs)"

fun contains :: "string \<Rightarrow> string \<Rightarrow> bool" where
  "contains s sub = (is_prefix sub s \<or> (case s of [] \<Rightarrow> False | c # cs \<Rightarrow> contains cs sub))"

subsection \<open>Schemas\<close>

record Medication =
  name :: string
  dose :: "string option"
  frequency :: "string option"
  route :: "string option"
  med_status :: "string option"

record Allergy =
  substance :: string
  reaction :: "string option"
  severity :: "string option"

record Problem =
  description :: string
  prob_status :: "string option"
  icd10 :: "string option"
  confidence :: "string option"

record ClinicalRecord =
  chief_complaint :: "string option"
  hpi :: "string option"
  assessment :: "Problem list"
  plan :: "string option"
  medications :: "Medication list"
  allergies :: "Allergy list"
  red_flags :: "string list"
  follow_up :: "string option"
  patient_summary_plain_language :: "string option"

record Flags =
  missing_fields :: "string list"
  contradictions :: "string list"
  confidence_by_field :: "string pydict"
  completeness_score :: rat

subsection \<open>Constants\<close>

definition REQUIRED_FIELDS :: "string list" where
  "REQUIRED_FIELDS =
     [''chief_complaint'', ''hpi'', ''assessment'', ''plan'', ''medications'', ''allergies'']"

definition CRITICAL_FIELDS :: "string list" where
  "CRITICAL_FIELDS = [''medications'', ''allergies'', ''assessment'']"

definition CONFIDENCE_NUMERIC :: "rat pydict" where
  "CONFIDENCE_NUMERIC = [(''low'', 33 / 100), (''medium'', 66 / 100), (''high'', 1)]"

definition MAX_REPAIR_ATTEMPTS :: int where
  "MAX_REPAIR_ATTEMPTS = 2"

definition COMPLETENESS_THRESHOLD :: rat where
  "COMPLETENESS_THRESHOLD = 8 / 10"

subsection \<open>Field presence\<close>

text \<open>What \<open>getattr(record, field, None)\<close> returns, as far as the validator looks at it:
  \<open>None\<close>, a string, or a list (of which only the length is read).\<close>

datatype attr = AttrNone | AttrStr string | AttrList nat

definition opt_attr :: "string option \<Rightarrow> attr" where
  "opt_attr v = (case v of None \<Rightarrow> AttrNone | Some s \<Rightarrow> AttrStr s)"

definition getattr :: "ClinicalRecord \<Rightarrow> string \<Rightarrow> attr" where
  "getattr r f =
     (if f = ''chief_complaint'' then opt_attr (chief_complaint r)
      else if f = ''hpi'' then opt_attr (hpi r)
      else if f = ''assessment'' then AttrList (length (assessment r))
      else if f = ''plan'' then opt_attr (plan r)
      else if f = ''medications'' then AttrList (length (medications r))
      else if f = ''allergies'' then AttrList (length (allergies r))
      else if f = ''red_flags'' then AttrList (length (red_flags r))
      else if f = ''follow_up'' then opt_attr (follow_up r)
      else if f = ''patient_summary_plain_language''
        then opt_attr (patient_summary_plain_language r)
      else AttrNone)"

definition is_field_present :: "ClinicalRecord \<Rightarrow> string \<Rightarrow> bool" where
  "is_field_present r f =
     (case getattr r f of
        AttrNone \<Rightarrow> False
      | AttrList n \<Rightarrow> n \<noteq> 0
      | AttrStr s \<Rightarrow> strip s \<noteq> [])"

subsection \<open>Contradiction rules\<close>

definition chief_complaint_addressed :: "ClinicalRecord \<Rightarrow> bool" where
  "chief_complaint_addressed r =
     (case chief_complaint r of
        None \<Rightarrow> True
      | Some cc \<Rightarrow>
          if cc = [] \<or> assessment r = [] then True
          else list_ex (\<lambda>p. list_ex (\<lambda>w. w \<in> set (split (lower (description p))))
                                     (split (lower cc)))
                       (assessment r))"

definition rule_nkda :: "ClinicalRecord \<Rightarrow> bool" where
  "rule_nkda r =
     (list_ex (\<lambda>a. contains (lower (substance a)) ''nkda'') (allergies r)
      \<and> length (allergies r) > 1)"

definition rule_no_medications :: "ClinicalRecord \<Rightarrow> bool" where
  "rule_no_medications r =
     (list_ex (\<lambda>m. contains (lower (name m)) ''none'') (medications r)
      \<and> length (medications r) > 1)"

definition rule_chief_complaint :: "ClinicalRecord \<Rightarrow> bool" where
  "rule_chief_complaint r =
     (chief_complaint r \<noteq> None \<and> assessment r \<noteq> [] \<and> \<not> chief_complaint_addressed r)"

definition CONTRADICTION_RULES :: "((ClinicalRecord \<Rightarrow> bool) \<times> string) list" where
  "CONTRADICTION_RULES =
     [(rule_nkda,
       ''States NKDA (no known drug allergies) but also lists specific allergies''),
      (rule_no_medications,
       ''States no medications but also lists specific medications''),
      (rule_chief_complaint,
       ''Chief complaint not addressed in assessment'')]"

subsection \<open>Confidence and completeness\<close>

definition field_confidence :: "ClinicalRecord \<Rightarrow> string \<Rightarrow> string" where
  "field_confidence r f =
     (if \<not> is_field_present r f then ''low''
      else (case getattr r f of
              AttrList n \<Rightarrow> (if n \<ge> 1 then ''high'' else ''low'')
            | AttrStr s \<Rightarrow>
                (let word_count = length (split s) in
                 if word_count \<ge> 5 then ''high''
                 else if word_count \<ge> 2 then ''medium''
                 else ''low'')
            | AttrNone \<Rightarrow> ''medium''))"

definition compute_confidence :: "ClinicalRecord \<Rightarrow> string pydict" where
  "compute_confidence r =
     foldl (\<lambda>d f. dict_set d f (field_confidence r f)) [] REQUIRED_FIELDS"

text \<open>Floats are modelled as exact rationals.\<close>

definition compute_completeness :: "string list \<Rightarrow> string pydict \<Rightarrow> rat" where
  "compute_completeness missing conf =
     (let total_required = int (length REQUIRED_FIELDS);
          fields_present = total_required - int (length missing);
          missing_critical = int (length (filter (\<lambda>f. f \<in> set missing) CRITICAL_FIELDS));
          total_critical = int (length CRITICAL_FIELDS);
          conf_values =
            map (\<lambda>(k, v). case dict_get CONFIDENCE_NUMERIC v of
                             None \<Rightarrow> 33 / 100 | Some x \<Rightarrow> x) conf;
          avg_confidence =
            (if conf_values \<noteq> [] then sum_list conf_values / of_nat (length conf_values)
             else 0);
          score = (5 / 10) * (of_int fields_present / of_int total_required)
                + (3 / 10) * (1 - of_int missing_critical / of_int total_critical)
                + (2 / 10) * avg_confidence
      in max 0 (min 1 score))"

text \<open>\<open>round(x, 3)\<close>: to the nearest multiple of 1/1000, a tie to the even one.\<close>

definition round3 :: "rat \<Rightarrow> rat" where
  "round3 x =
     (let y = x * 1000; f = \<lfloor>y\<rfloor>; d = y - of_int f
      in of_int (if d < 1 / 2 then f
                 else if d > 1 / 2 then f + 1
                 else if even f then f else f + 1) / 1000)"

definition validate :: "ClinicalRecord \<Rightarrow> Flags" where
  "validate r =
     (let missing = filter (\<lambda>f. \<not> is_field_present r f) REQUIRED_FIELDS;
          contradictions = map snd (filter (\<lambda>(rule_fn, msg). rule_fn r) CONTRADICTION_RULES);
          conf = compute_confidence r;
          score = compute_completeness missing conf
      in \<lparr>missing_fields = missing, contradictions = contradictions,
          confidence_by_field = conf, completeness_score = round3 score\<rparr>)"

subsection \<open>Pydantic models as JSON-shaped values\<close>

text \<open>\<open>ClinicalRecord.model_dump()\<close>: the record as a dict of plain Python values.\<close>

definition dump_opt :: "string option \<Rightarrow> json" where
  "dump_opt v = (case v of None \<Rightarrow> JNull | Some s \<Rightarrow> JStr s)"

definition dump_medication :: "Medication \<Rightarrow> json" where
  "dump_medication m =
     JObj [(''name'', JStr (name m)), (''dose'', dump_opt (dose m)),
           (''frequency'', dump_opt (frequency m)), (''route'', dump_opt (route m)),
           (''status'', dump_opt (med_status m))]"

definition dump_allergy :: "Allergy \<Rightarrow> json" where
  "dump_allergy a =
     JObj [(''substance'', JStr (substance a)), (''reaction'', dump_opt (reaction a)),
           (''severity'', dump_opt (severity a))]"

definition dump_problem :: "Problem \<Rightarrow> json" where
  "dump_problem p =
     JObj [(''description'', JStr (description p)), (''status'', dump_opt (prob_status p)),
           (''icd10'', dump_opt (icd10 p)), (''confidence'', dump_opt (confidence p))]"

definition model_dump :: "ClinicalRecord \<Rightarrow> json pydict" where
  "model_dump r =
     [(''chief_complaint'', dump_opt (chief_complaint r)),
      (''hpi'', dump_opt (hpi r)),
      (''assessment'', JArr (map dump_problem (assessment r))),
      (''plan'', dump_opt (plan r)),
      (''medications'', JArr (map dump_medication (medications r))),
      (''allergies'', JArr (map dump_allergy (allergies r))),
      (''red_flags'', JArr (map JStr (red_flags r))),
      (''follow_up'', dump_opt (follow_up r)),
      (''patient_summary_plain_language'', dump_opt (patient_summary_plain_language r))]"

text \<open>
  Pydantic validation of a JSON-shaped value against the declared field types; \<open>None\<close> is
  a \<open>ValidationError\<close>. A field of type \<open>Optional[str] = None\<close> takes a string or
  \<open>None\<close> and defaults to \<open>None\<close>; a field of type \<open>str\<close> is required; a list field
  takes a list and defaults to the empty list; a nested model takes a dict, whose extra
  keys are ignored.
\<close>

definition opt_str_field :: "json pydict \<Rightarrow> string \<Rightarrow> string option option" where
  "opt_str_field d k =
     (case dict_get d k of
        None \<Rightarrow> Some None
      | Some JNull \<Rightarrow> Some None
      | Some (JStr s) \<Rightarrow> Some (Some s)
      | Some _ \<Rightarrow> None)"

definition str_field :: "json pydict \<Rightarrow> string \<Rightarrow> string option" where
  "str_field d k = (case dict_get d k of Some (JStr s) \<Rightarrow> Some s | _ \<Rightarrow> None)"

definition list_field :: "(json \<Rightarrow> 'a option) \<Rightarrow> json pydict \<Rightarrow> string \<Rightarrow> 'a list option" where
  "list_field item d k =
     (case dict_get d k of
        None \<Rightarrow> Some []
      | Some (JArr xs) \<Rightarrow> those (map item xs)
      | Some _ \<Rightarrow> None)"

definition str_item :: "json \<Rightarrow> string option" where
  "str_item j = (case j of JStr s \<Rightarrow> Some s | _ \<Rightarrow> None)"

definition validate_medication :: "json \<Rightarrow> Medication option" where
  "validate_medication j =
     (case j of
        JObj d \<Rightarrow>
          (case (str_field d ''name'', opt_str_field d ''dose'', opt_str_field d ''frequency'',
                 opt_str_field d ''route'', opt_str_field d ''status'') of
             (Some n, Some ds, Some fr, Some ro, Some st) \<Rightarrow>
               Some \<lparr>name = n, dose = ds, frequency = fr, route = ro, med_status = st\<rparr>
           | _ \<Rightarrow> None)
      | _ \<Rightarrow> None)"

definition validate_allergy :: "json \<Rightarrow> Allergy option" where
  "validate_allergy j =
     (case j of
        JObj d \<Rightarrow>
          (case (str_field d ''substance'', opt_str_field d ''reaction'',
                 opt_str_field d ''severity'') of
             (Some su, Some re, Some se) \<Rightarrow>
               Some \<lparr>substance = su, reaction = re, severity = se\<rparr>
           | _ \<Rightarrow> None)
      | _ \<Rightarrow> None)"

definition validate_problem :: "json \<Rightarrow> Problem option" where
  "validate_problem j =
     (case j of
        JObj d \<Rightarrow>
          (case (str_field d ''description'', opt_str_field d ''status'',
                 opt_str_field d ''icd10'', opt_str_field d ''confidence'') of
             (Some de, Some st, Some ic, Some co) \<Rightarrow>
               Some \<lparr>description = de, prob_status = st, icd10 = ic, confidence = co\<rparr>
           | _ \<Rightarrow> None)
      | _ \<Rightarrow> None)"

definition model_validate :: "json pydict \<Rightarrow> ClinicalRecord option" where
  "model_validate d =
     (case (opt_str_field d ''chief_complaint'', opt_str_field d ''hpi'',
            list_field validate_problem d ''assessment'', opt_str_field d ''plan'',
            list_field validate_medication d ''medications'') of
        (Some cc, Some h, Some asm, Some pl, Some meds) \<Rightarrow>
          (case (list_field validate_allergy d ''allergies'',
                 list_field str_item d ''red_flags'', opt_str_field d ''follow_up'',
                 opt_str_field d ''patient_summary_plain_language'') of
             (Some al, Some rf, Some fu, Some ps) \<Rightarrow>
               Some \<lparr>chief_complaint = cc, hpi = h, assessment = asm, plan = pl,
                     medications = meds, allergies = al, red_flags = rf, follow_up = fu,
                     patient_summary_plain_language = ps\<rparr>
           | _ \<Rightarrow> None)
      | _ \<Rightarrow> None)"

subsection \<open>The repair loop\<close>

text \<open>
  An extractor is the method \<open>repair_fields(note_text, current_record, fields_to_repair,
  locale)\<close> of an object with a state of its own (a model, a connection): it takes the
  state and returns the update map, or \<open>None\<close> when the call raises, with the state after
  the call.
\<close>

type_synonym 's extractor =
  "'s \<Rightarrow> string \<Rightarrow> ClinicalRecord \<Rightarrow> string list \<Rightarrow> string \<Rightarrow> json pydict option \<times> 's"

definition is_unknown :: "json \<Rightarrow> bool" where
  "is_unknown v = (case v of JStr s \<Rightarrow> lower (strip s) = ''unknown'' | _ \<Rightarrow> False)"

definition merge_field :: "json pydict \<Rightarrow> string \<times> json \<Rightarrow> json pydict" where
  "merge_field data fv =
     (case fv of (field, v) \<Rightarrow>
        if field \<in> fst ` set data \<and> v \<noteq> JNull
        then (if is_unknown v then data else dict_set data field v)
        else data)"

definition apply_repair ::
  "'s extractor \<Rightarrow> 's \<Rightarrow> ClinicalRecord \<Rightarrow> string \<Rightarrow> string list \<Rightarrow> string
     \<Rightarrow> (error + ClinicalRecord) \<times> 's" where
  "apply_repair ext st r note_text fields_to_fix locale =
     (case ext st note_text r fields_to_fix locale of
        (None, st') \<Rightarrow> (Inr r, st')
      | (Some repaired, st') \<Rightarrow>
          (case model_validate (foldl merge_field (model_dump r) repaired) of
             None \<Rightarrow> (Inl ValidationError, st')
           | Some r' \<Rightarrow> (Inr r', st')))"

text \<open>
  What a call of \<open>validate_and_repair\<close> does: its result (an exception that leaves the
  function is \<open>Inl\<close>), the number of calls of \<open>validate\<close>, the number of calls of the
  extractor, and the extractor's state afterwards.
\<close>

record 's repair_run =
  result :: "error + ClinicalRecord \<times> Flags"
  validations :: nat
  extractor_calls :: nat
  ext_state :: 's

text \<open>
  The \<open>for attempt in range(max_repairs + 1)\<close> loop over the attempts that remain.
  \<open>fl\<close> is the variable \<open>flags\<close>, unbound before the first pass; \<open>nv\<close> and \<open>ne\<close> count
  the calls so far.
\<close>

fun repair_loop ::
  "'s extractor option \<Rightarrow> string \<Rightarrow> string \<Rightarrow> int \<Rightarrow> nat list \<Rightarrow> 's \<Rightarrow> ClinicalRecord
     \<Rightarrow> Flags option \<Rightarrow> nat \<Rightarrow> nat \<Rightarrow> 's repair_run" where
  "repair_loop ext note_text locale max_repairs [] st r fl nv ne =
     \<lparr>result = (case fl of None \<Rightarrow> Inl UnboundLocalError | Some flags \<Rightarrow> Inr (r, flags)),
      validations = nv, extractor_calls = ne, ext_state = st\<rparr>"
| "repair_loop ext note_text locale max_repairs (attempt # rest) st r fl nv ne =
     (let flags = validate r in
      if completeness_score flags \<ge> COMPLETENESS_THRESHOLD \<and> contradictions flags = []
      then \<lparr>result = Inr (r, flags), validations = Suc nv, extractor_calls = ne,
            ext_state = st\<rparr>
      else
        (case ext of
           Some e \<Rightarrow>
             if int attempt < max_repairs
             then
               (let fields_to_fix =
                      (if contradictions flags \<noteq> []
                       then missing_fields flags @ [''contradictions'']
                       else missing_fields flags)
                in if fields_to_fix = []
                   then \<lparr>result = Inr (r, flags), validations = Suc nv,
                         extractor_calls = ne, ext_state = st\<rparr>
                   else
                     (case apply_repair e st r note_text fields_to_fix locale of
                        (Inl err, st') \<Rightarrow>
                          \<lparr>result = Inl err, validations = Suc nv,
                           extractor_calls = Suc ne, ext_state = st'\<rparr>
                      | (Inr r', st') \<Rightarrow>
                          repair_loop ext note_text locale max_repairs rest st' r'
                            (Some flags) (Suc nv) (Suc ne)))
             else repair_loop ext note_text locale max_repairs rest st r
                    (Some flags) (Suc nv) ne
         | None \<Rightarrow>
             repair_loop ext note_text locale max_repairs rest st r (Some flags) (Suc nv) ne))"

definition validate_and_repair ::
  "ClinicalRecord \<Rightarrow> string \<Rightarrow> 's extractor option \<Rightarrow> 's \<Rightarrow> string \<Rightarrow> int \<Rightarrow> 's repair_run" where
  "validate_and_repair r note_text ext st locale max_repairs =
     repair_loop ext note_text locale max_repairs [0 ..< nat (max_repairs + 1)] st r None 0 0"

section \<open>Reading the queue back\<close>

subsection \<open>Decrypt for display (QueueManager.get_all_decrypted)\<close>

definition metadata_entry :: "queue_item \<Rightarrow> json pydict" where
  "metadata_entry r =
     [(''note_id'', JStr (note_id r)), (''mode'', JStr (mode r)),
      (''status'', JStr (status r)), (''created_at'', JStr (created_at r))]"

text \<open>The body of the loop for one row: the \<open>try\<close> branch builds
  \<open>{"note_id": ..., "mode": ..., "status": ..., "created_at": ..., **payload}\<close>, which raises
  when the payload is not a mapping; the \<open>except\<close> branch builds the entry with the error
  marker.\<close>

definition decrypted_entry :: "libs \<Rightarrow> queue_item \<Rightarrow> json pydict" where
  "decrypted_entry L r =
     (case decrypt_payload L (note_id r) (ciphertext r) of
        Inr (JObj payload) \<Rightarrow> dict_merge (metadata_entry r) payload
      | _ \<Rightarrow> metadata_entry r @ [(''error'', JStr ''Decryption failed'')])"

fun decrypt_rows :: "libs \<Rightarrow> queue_item list \<Rightarrow> json pydict list \<Rightarrow> json pydict list" where
  "decrypt_rows L [] results = results"
| "decrypt_rows L (r # rows) results = decrypt_rows L rows (results @ [decrypted_entry L r])"

text \<open>
  \<open>SELECT ... FROM queue_items ORDER BY created_at DESC\<close>: the answer holds every row of
  the table once, in an order in which \<open>created_at\<close> never increases. Which of two rows of
  equal \<open>created_at\<close> comes first is the engine's choice (it depends on the indexes of the
  table), so the answer is an argument of the model, and \<open>select_order_desc\<close> says which
  answers the engine can give.
\<close>

definition select_order_desc :: "queue_db \<Rightarrow> queue_item list \<Rightarrow> bool" where
  "select_order_desc db rows = (mset rows = mset db \<and> sorted (rev (map created_at rows)))"

text \<open>\<open>get_all_decrypted\<close> on the answer \<open>rows\<close> of its query. The call returns the
  listing; the table it leaves is the second component.\<close>

definition get_all_decrypted ::
  "libs \<Rightarrow> queue_item list \<Rightarrow> queue_db \<Rightarrow> json pydict list \<times> queue_db" where
  "get_all_decrypted L rows db = (decrypt_rows L rows [], db)"

subsection \<open>Assembling a batch (SyncWorker.sync_batch)\<close>

record SyncItem =
  si_note_id :: string
  si_record :: ClinicalRecord
  si_flags :: Flags
  si_created_at :: string
  si_schema_version :: string
  si_idempotency_key :: string
  raw_note_text :: "string option"

record SyncRequest =
  device_id :: string
  req_mode :: string
  items :: "SyncItem list"

definition str_dict_item :: "string \<times> json \<Rightarrow> (string \<times> string) option" where
  "str_dict_item kv = (case kv of (k, JStr s) \<Rightarrow> Some (k, s) | _ \<Rightarrow> None)"

text \<open>Pydantic validation of a value as \<open>Flags\<close> and as \<open>ClinicalRecord\<close>.\<close>

definition validate_flags :: "libs \<Rightarrow> json \<Rightarrow> Flags option" where
  "validate_flags L j =
     (case j of
        JObj d \<Rightarrow>
          (case (list_field str_item d ''missing_fields'',
                 list_field str_item d ''contradictions'',
                 (case dict_get d ''confidence_by_field'' of
                    None \<Rightarrow> Some []
                  | Some (JObj c) \<Rightarrow> those (map str_dict_item c)
                  | Some _ \<Rightarrow> None),
                 (case dict_get d ''completeness_score'' of
                    None \<Rightarrow> Some 0
                  | Some v \<Rightarrow> pydantic_float L v)) of
             (Some mf, Some co, Some cf, Some sc) \<Rightarrow>
               Some \<lparr>missing_fields = mf, contradictions = co,
                     confidence_by_field = cf, completeness_score = sc\<rparr>
           | _ \<Rightarrow> None)
      | _ \<Rightarrow> None)"

definition validate_record :: "json \<Rightarrow> ClinicalRecord option" where
  "validate_record j = (case j of JObj d \<Rightarrow> model_validate d | _ \<Rightarrow> None)"

text \<open>The constructor \<open>SyncItem(...)\<close>: every argument is validated against its field.\<close>

definition make_SyncItem ::
  "libs \<Rightarrow> string \<Rightarrow> json \<Rightarrow> json \<Rightarrow> string \<Rightarrow> string \<Rightarrow> string \<Rightarrow> json \<Rightarrow> error + SyncItem" where
  "make_SyncItem L nid rec fl created version key raw =
     (case (validate_record rec, validate_flags L fl, pydantic_datetime L created,
            (case raw of JNull \<Rightarrow> Some None | JStr s \<Rightarrow> Some (Some s) | _ \<Rightarrow> None)) of
        (Some r, Some f, Some c, Some t) \<Rightarrow>
          Inr \<lparr>si_note_id = nid, si_record = r, si_flags = f, si_created_at = c,
               si_schema_version = version, si_idempotency_key = key, raw_note_text = t\<rparr>
      | _ \<Rightarrow> Inl ValidationError)"

text \<open>The \<open>try\<close> body of the loop of \<open>sync_batch\<close> for one pending row. A payload that is
  not a dict has no \<open>pop\<close> with a default: a list raises \<open>TypeError\<close>, any other value
  \<open>AttributeError\<close>.\<close>

definition prepare_item :: "libs \<Rightarrow> queue_item \<Rightarrow> error + SyncItem" where
  "prepare_item L row =
     (case decrypt_payload L (note_id row) (ciphertext row) of
        Inl e \<Rightarrow> Inl e
      | Inr (JObj payload0) \<Rightarrow>
          (let (popped, payload) = dict_pop payload0 ''raw_note_text'';
               raw_text = (case popped of None \<Rightarrow> JNull | Some v \<Rightarrow> v);
               raw_text = (if mode row = ''demo'' then JNull else raw_text)
           in case dict_get payload ''record'' of
                None \<Rightarrow> Inl KeyError
              | Some rec \<Rightarrow>
                  (case dict_get payload ''flags'' of
                     None \<Rightarrow> Inl KeyError
                   | Some fl \<Rightarrow>
                       make_SyncItem L (note_id row) rec fl (created_at row) ''1.0.0''
                         (idempotency_key row) raw_text))
      | Inr (JArr xs) \<Rightarrow> Inl TypeError
      | Inr _ \<Rightarrow> Inl AttributeError)"

text \<open>The loop over the pending rows: each is marked \<open>syncing\<close>; a row whose preparation
  raises is marked \<open>failed\<close> and left out. One reading of the clock serves the batch.\<close>

fun assemble ::
  "libs \<Rightarrow> string \<Rightarrow> queue_item list \<Rightarrow> queue_db \<Rightarrow> SyncItem list \<Rightarrow> string list
     \<Rightarrow> SyncItem list \<times> string list \<times> queue_db" where
  "assemble L now [] db its note_ids = (its, note_ids, db)"
| "assemble L now (row # pending) db its note_ids =
     (let db1 = mark_syncing now (note_id row) db in
      case prepare_item L row of
        Inr item \<Rightarrow> assemble L now pending db1 (its @ [item]) (note_ids @ [note_id row])
      | Inl e \<Rightarrow>
          assemble L now pending (mark_failed now (note_id row) (exc_str L e) db1)
            its note_ids)"

text \<open>What \<open>sync_batch\<close> has in hand when it turns to the network: nothing pending,
  nothing that could be prepared, or the request to post.\<close>

datatype batch = NoPending | NothingPrepared nat | Outbound SyncRequest

text \<open>\<open>SyncRequest(device_id=..., mode=..., items=...)\<close>: \<open>mode\<close> is the enum \<open>Mode\<close>,
  \<open>items\<close> has at most 50 elements.\<close>

definition make_SyncRequest :: "settings \<Rightarrow> SyncItem list \<Rightarrow> error + SyncRequest" where
  "make_SyncRequest st its =
     (if (MODE st = ''demo'' \<or> MODE st = ''prod'') \<and> length its \<le> 50
      then Inr \<lparr>device_id = DEVICE_ID st, req_mode = MODE st, items = its\<rparr>
      else Inl ValidationError)"

text \<open>\<open>sync_batch\<close> up to the request it posts, with the table as the loop leaves it.\<close>

definition sync_batch_outbound ::
  "libs \<Rightarrow> settings \<Rightarrow> string \<Rightarrow> queue_db \<Rightarrow> (error + batch) \<times> queue_db" where
  "sync_batch_outbound L st now db =
     (let pending = get_pending (SYNC_BATCH_SIZE st) db in
      if pending = [] then (Inr NoPending, db)
      else
        (case assemble L now pending db [] [] of
           (its, note_ids, db') \<Rightarrow>
             if its = [] then (Inr (NothingPrepared (length pending)), db')
             else (case make_SyncRequest st its of
                     Inl e \<Rightarrow> (Inl e, db')
                   | Inr req \<Rightarrow> (Inr (Outbound req), db'))))"

text \<open>The items of the batch that goes out, if one does.\<close>

definition outbound_items :: "(error + batch) \<times> queue_db \<Rightarrow> SyncItem list" where
  "outbound_items out = (case fst out of Inr (Outbound req) \<Rightarrow> items req | _ \<Rightarrow> [])"

section \<open>Example data\<close>

text \<open>Two rows of a queue: one already synced, one waiting.\<close>

definition synced_row :: queue_item where
  "synced_row =
     \<lparr>note_id = ''n1'', idempotency_key = ''dev:n1:u1'', mode = ''prod'', ciphertext = [],
      status = ''synced'', fail_reason = None, retry_count = 0,
      created_at = ''2026-01-01 10:00:00'', updated_at = ''2026-01-01 10:00:05''\<rparr>"

definition queued_row :: queue_item where
  "queued_row =
     \<lparr>note_id = ''n2'', idempotency_key = ''dev:n2:u2'', mode = ''demo'', ciphertext = [],
      status = ''queued'', fail_reason = None, retry_count = 0,
      created_at = ''2026-01-01 10:00:01'', updated_at = ''2026-01-01 10:00:01''\<rparr>"

text \<open>The record with nothing filled in.\<close>

definition empty_record :: ClinicalRecord where
  "empty_record =
     \<lparr>chief_complaint = None, hpi = None, assessment = [], plan = None, medications = [],
      allergies = [], red_flags = [], follow_up = None,
      patient_summary_plain_language = None\<rparr>"

text \<open>
  The completeness score in the words of the specification, on the fields of the record and
  without the validator's functions. A text field is missing when it is null or blank; its
  confidence is low when it is missing, high from five whitespace-delimited tokens on, medium
  from two, low below. \<open>spec_count_tokens\<close> counts the tokens as the starts of the runs of
  non-whitespace. A collection is missing when it is empty, and its confidence is high
  unless it is empty.
\<close>

definition spec_str_missing :: "string option \<Rightarrow> bool" where
  "spec_str_missing v = (case v of None \<Rightarrow> True | Some s \<Rightarrow> list_all is_space s)"

fun spec_count_tokens :: "bool \<Rightarrow> string \<Rightarrow> nat" where
  "spec_count_tokens after_space [] = 0"
| "spec_count_tokens after_space (c # cs) =
     (if \<not> is_space c \<and> after_space then 1 else 0) + spec_count_tokens (is_space c) cs"

definition spec_str_confidence :: "string option \<Rightarrow> rat" where
  "spec_str_confidence v =
     (if spec_str_missing v then 33 / 100
      else (case v of
              None \<Rightarrow> 33 / 100
            | Some s \<Rightarrow>
                if 5 \<le> spec_count_tokens True s then 1
                else if 2 \<le> spec_count_tokens True s then 66 / 100
                else 33 / 100))"

definition spec_list_confidence :: "'a list \<Rightarrow> rat" where
  "spec_list_confidence xs = (if xs = [] then 33 / 100 else 1)"

text \<open>How many of the six required fields are present, and how many of the three critical
  fields (medications, allergies, assessment) are missing.\<close>

definition spec_present_required :: "ClinicalRecord \<Rightarrow> nat" where
  "spec_present_required r =
     length (filter id
       [\<not> spec_str_missing (chief_complaint r), \<not> spec_str_missing (hpi r),
        assessment r \<noteq> [], \<not> spec_str_missing (plan r), medications r \<noteq> [],
        allergies r \<noteq> []])"

definition spec_missing_critical :: "ClinicalRecord \<Rightarrow> nat" where
  "spec_missing_critical r =
     length (filter id [medications r = [], allergies r = [], assessment r = []])"

text \<open>The mean of the six confidence values, the weighted sum, and the score: the sum clamped
  to \<open>[0, 1]\<close> and rounded to the nearest thousandth.\<close>

definition spec_mean_confidence :: "ClinicalRecord \<Rightarrow> rat" where
  "spec_mean_confidence r =
     (spec_str_confidence (chief_complaint r) + spec_str_confidence (hpi r)
      + spec_list_confidence (assessment r) + spec_str_confidence (plan r)
      + spec_list_confidence (medications r) + spec_list_confidence (allergies r)) / 6"

definition spec_weighted_sum :: "ClinicalRecord \<Rightarrow> rat" where
  "spec_weighted_sum r =
     5 / 10 * (of_nat (spec_present_required r) / 6)
     + 3 / 10 * (1 - of_nat (spec_missing_critical r) / 3)
     + 2 / 10 * spec_mean_confidence r"

definition spec_completeness :: "ClinicalRecord \<Rightarrow> rat" where
  "spec_completeness r = of_int (round (1000 * max 0 (min 1 (spec_weighted_sum r)))) / 1000"

text \<open>The complete record of the repository's test of the validator, and the same record
  with a blank history.\<close>

definition complete_record :: ClinicalRecord where
  "complete_record =
     \<lparr>chief_complaint = Some ''Chest pain'',
      hpi = Some ''55yo male with chest pain for 2 hours'',
      assessment = [\<lparr>description = ''Acute coronary syndrome'', prob_status = Some ''active'',
                     icd10 = None, confidence = None\<rparr>],
      plan = Some ''EKG stat, troponins q6h'',
      medications = [\<lparr>name = ''Aspirin'', dose = Some ''325mg'', frequency = None,
                      route = None, med_status = None\<rparr>],
      allergies = [\<lparr>substance = ''Penicillin'', reaction = Some ''rash'', severity = None\<rparr>],
      red_flags = [], follow_up = None, patient_summary_plain_language = None\<rparr>"

definition blank_hpi_record :: ClinicalRecord where
  "blank_hpi_record = complete_record\<lparr>hpi := Some [CHR '' '', CHR 0x09, CHR 0x0A]\<rparr>"

text \<open>An extractor that proposes no update and counts its calls in its state.\<close>

definition never_improves :: "nat extractor" where
  "never_improves st note_text r fs locale = (Some [], Suc st)"

text \<open>The record of the repository's test of the repair loop without an extractor.\<close>

definition test_record :: ClinicalRecord where
  "test_record = empty_record\<lparr>chief_complaint := Some ''Test''\<rparr>"

text \<open>
  Stand-ins for the libraries, to run the model on examples: an encoding that marks every
  octet as nonce, associated data or plaintext and compares the associated data on the way
  back, a JSON codec that knows the payloads below by letter, a float coercion of numbers, a
  datetime parser that takes every text.
\<close>

definition payload_a :: json where
  "payload_a =
     JObj [(''record'', JObj [(''chief_complaint'', JStr ''Cough for three days'')]),
           (''flags'', JObj [(''completeness_score'', JNum (149 / 1000))]),
           (''raw_note_text'', JStr ''Pt reports cough x3 days'')]"

definition payload_b :: json where
  "payload_b = JObj [(''record'', JObj []), (''flags'', JObj [])]"

definition payload_c :: json where
  "payload_c =
     JObj [(''record'', JObj [(''plan'', JStr ''Rest and fluids'')]), (''flags'', JObj [])]"

definition payload_d :: json where
  "payload_d = JObj [(''status'', JStr ''synced''), (''record'', JObj [])]"

fun tag :: "char \<Rightarrow> bytes \<Rightarrow> bytes" where
  "tag t [] = []"
| "tag t (c # cs) = t # c # tag t cs"

fun untag :: "bytes \<Rightarrow> (bytes \<times> bytes) option" where
  "untag [] = Some ([], [])"
| "untag [t] = None"
| "untag (t # c # rest) =
     (case untag rest of
        None \<Rightarrow> None
      | Some (a, p) \<Rightarrow>
          if t = CHR ''a'' then Some (c # a, p)
          else if t = CHR ''p'' then Some (a, c # p)
          else if t = CHR ''n'' then Some (a, p)
          else None)"

definition example_encrypt :: "nat \<Rightarrow> bytes \<Rightarrow> bytes \<Rightarrow> bytes" where
  "example_encrypt nonce plaintext aad =
     tag (CHR ''n'') [char_of nonce] @ tag (CHR ''a'') aad @ tag (CHR ''p'') plaintext"

definition example_decrypt :: "bytes \<Rightarrow> bytes \<Rightarrow> bytes option" where
  "example_decrypt ct aad =
     (case untag ct of
        Some (a, p) \<Rightarrow> if a = aad then Some p else None
      | None \<Rightarrow> None)"

definition example_dumps :: "json \<Rightarrow> string" where
  "example_dumps j =
     (if j = payload_a then ''A'' else if j = payload_b then ''B''
      else if j = payload_c then ''C'' else if j = payload_d then ''D'' else ''?'')"

definition example_loads :: "bytes \<Rightarrow> json option" where
  "example_loads b =
     (if b = ''A'' then Some payload_a else if b = ''B'' then Some payload_b
      else if b = ''C'' then Some payload_c else if b = ''D'' then Some payload_d
      else None)"

definition example_libs :: libs where
  "example_libs =
     \<lparr>aead_encrypt = example_encrypt, aead_decrypt = example_decrypt,
      json_dumps = example_dumps, json_loads = example_loads,
      pydantic_float = (\<lambda>j. case j of JNum q \<Rightarrow> Some q | _ \<Rightarrow> None),
      pydantic_datetime = Some,
      exc_str = (\<lambda>e. ''error'')\<rparr>"

definition example_settings :: settings where
  "example_settings = \<lparr>DEVICE_ID = ''local-dev-001'', MODE = ''demo'', SYNC_BATCH_SIZE = 10\<rparr>"

text \<open>Three notes saved in demo mode, the first with raw note text in its payload.\<close>

definition three_demo_notes :: queue_db where
  "three_demo_notes =
     snd (enqueue example_libs example_settings ''u3'' 3 ''2026-01-01 10:00:03'' ''n3''
            payload_c ''demo''
       (snd (enqueue example_libs example_settings ''u2'' 2 ''2026-01-01 10:00:02'' ''n2''
            payload_b ''demo''
         (snd (enqueue example_libs example_settings ''u1'' 1 ''2026-01-01 10:00:01'' ''n1''
            payload_a ''demo'' [])))))"

text \<open>The same queue after the stored ciphertext of the second note was damaged.\<close>

definition damaged_queue :: queue_db where
  "damaged_queue =
     update_where_note_id (\<lambda>r. r\<lparr>ciphertext := ''garbage''\<rparr>) ''n2'' three_demo_notes"

text \<open>A queue of one note whose payload has a field named \<open>status\<close>.\<close>

definition clashing_queue :: queue_db where
  "clashing_queue =
     snd (enqueue example_libs example_settings ''u4'' 4 ''2026-01-01 10:00:04'' ''n4''
            payload_d ''prod'' [])"

section \<open>Properties\<close>

subsection \<open>Status transitions of the queue\<close>

lemma update_where_absent:
  "nid \<notin> note_id ` set db \<Longrightarrow> update_where_note_id f nid db = db"
  unfolding update_where_note_id_def by (induction db) auto

text \<open>
  C10. Calling \<open>mark_syncing\<close>, \<open>mark_synced\<close>, \<open>mark_failed\<close> or \<open>reset_for_retry\<close>
  with a \<open>note_id\<close> that has no row returns normally (the operations are total), creates
  no row and leaves the whole table as it was.
\<close>

theorem absent_note_id_noop:
  "nid \<notin> note_id ` set db \<Longrightarrow>
     mark_syncing now nid db = db \<and> mark_synced now nid db = db
     \<and> mark_failed now nid reason db = db \<and> reset_for_retry now nid db = db"
  by (simp add: mark_syncing_def mark_synced_def mark_failed_def reset_for_retry_def
      update_where_absent)

theorem absent_note_id_noop_witness:
  "''n9'' \<notin> note_id ` set [synced_row, queued_row]
   \<and> mark_syncing ''t'' ''n9'' [synced_row, queued_row] = [synced_row, queued_row]
   \<and> mark_synced ''t'' ''n9'' [synced_row, queued_row] = [synced_row, queued_row]
   \<and> mark_failed ''t'' ''n9'' ''boom'' [synced_row, queued_row] = [synced_row, queued_row]
   \<and> reset_for_retry ''t'' ''n9'' [synced_row, queued_row] = [synced_row, queued_row]"
proof -
  have h: "''n9'' \<notin> note_id ` set [synced_row, queued_row]"
    by (simp add: synced_row_def queued_row_def)
  show ?thesis
    using h absent_note_id_noop [OF h, of "''t''" "''boom''"] by simp
qed

lemma find_update_where:
  assumes "\<And>r. note_id (f r) = note_id r"
  shows "find (\<lambda>r. note_id r = n) (update_where_note_id f nid db) =
         (if n = nid then map_option f (find (\<lambda>r. note_id r = n) db)
          else find (\<lambda>r. note_id r = n) db)"
  unfolding update_where_note_id_def using assms by (induction db) auto

lemma status_of_update_where:
  assumes "\<And>r. note_id (f r) = note_id r" and "\<And>r. status (f r) = s"
  shows "status_of (update_where_note_id f nid db) n =
         (if n = nid then map_option (\<lambda>_. s) (status_of db n) else status_of db n)"
  unfolding status_of_def find_update_where [OF assms(1)]
  by (simp add: option.map_comp comp_def assms(2))

lemma find_filter_other:
  "n \<noteq> nid \<Longrightarrow> find (\<lambda>r. note_id r = n) (filter (\<lambda>x. note_id x \<noteq> nid) db) =
     find (\<lambda>r. note_id r = n) db"
  by (induction db) auto

lemma find_filter_same:
  "find (\<lambda>r. note_id r = nid) (filter (\<lambda>x. note_id x \<noteq> nid) db) = None"
  by (induction db) auto

lemma find_append_cases:
  "find P (xs @ ys) = (case find P xs of None \<Rightarrow> find P ys | Some x \<Rightarrow> Some x)"
  by (induction xs) auto

lemma status_of_insert_or_replace:
  "status_of (insert_or_replace r db) n =
     (if n = note_id r then Some (status r) else status_of db n)"
  by (auto simp: status_of_def insert_or_replace_def find_append_cases find_filter_other
      find_filter_same split: option.splits)

text \<open>
  C1, as the code has it. The store guards no transition: \<open>mark_syncing\<close>, \<open>mark_synced\<close>,
  \<open>mark_failed\<close> and \<open>reset_for_retry\<close> set the status of the row filed under that
  \<open>note_id\<close>, if there is one, to \<open>syncing\<close>, \<open>synced\<close>, \<open>failed\<close> and \<open>queued\<close> whatever it
  was before, and touch the status of no other row; \<open>enqueue\<close> leaves the row of its
  \<open>note_id\<close> \<open>queued\<close>. So \<open>mark_synced\<close> is the only operation that makes a row \<open>synced\<close>,
  from any status, and a \<open>synced\<close> row stays so only until the next call for its \<open>note_id\<close>.
\<close>

theorem status_transitions_unguarded:
  "status_of (mark_syncing now nid db) n =
     (if n = nid then map_option (\<lambda>_. ''syncing'') (status_of db n) else status_of db n)
   \<and> status_of (mark_synced now nid db) n =
     (if n = nid then map_option (\<lambda>_. ''synced'') (status_of db n) else status_of db n)
   \<and> status_of (mark_failed now nid reason db) n =
     (if n = nid then map_option (\<lambda>_. ''failed'') (status_of db n) else status_of db n)
   \<and> status_of (reset_for_retry now nid db) n =
     (if n = nid then map_option (\<lambda>_. ''queued'') (status_of db n) else status_of db n)
   \<and> status_of (snd (enqueue L st uuid4 nonce now nid payload md db)) n =
     (if n = nid then Some ''queued'' else status_of db n)"
  unfolding mark_syncing_def mark_synced_def mark_failed_def reset_for_retry_def enqueue_def
  by (simp add: status_of_update_where status_of_insert_or_replace Let_def)

text \<open>
  The claim as the spec words it fails on a row that is \<open>synced\<close>: \<open>mark_syncing\<close>,
  \<open>mark_failed\<close> and \<open>reset_for_retry\<close> each change its status; and \<open>mark_synced\<close> takes
  a \<open>queued\<close> row to \<open>synced\<close> without passing through \<open>syncing\<close>.
\<close>

theorem synced_not_terminal:
  "status_of [synced_row, queued_row] ''n1'' = Some ''synced''
   \<and> status_of (mark_syncing ''2026-01-01 10:01:00'' ''n1'' [synced_row, queued_row]) ''n1''
       = Some ''syncing''
   \<and> status_of (mark_failed ''2026-01-01 10:01:00'' ''n1'' ''late'' [synced_row, queued_row]) ''n1''
       = Some ''failed''
   \<and> status_of (reset_for_retry ''2026-01-01 10:01:00'' ''n1'' [synced_row, queued_row]) ''n1''
       = Some ''queued''
   \<and> status_of [synced_row, queued_row] ''n2'' = Some ''queued''
   \<and> status_of (mark_synced ''2026-01-01 10:01:00'' ''n2'' [synced_row, queued_row]) ''n2''
       = Some ''synced''"
  by (simp add: status_of_def mark_syncing_def mark_synced_def mark_failed_def
      reset_for_retry_def update_where_note_id_def synced_row_def queued_row_def)

subsection \<open>The validator\<close>

lemma compute_confidence_eq:
  "compute_confidence r = map (\<lambda>f. (f, field_confidence r f)) REQUIRED_FIELDS"
  by (simp add: compute_confidence_def REQUIRED_FIELDS_def)

lemma missing_critical_eq:
  "filter (\<lambda>f. f \<in> set (filter (\<lambda>f. \<not> is_field_present r f) REQUIRED_FIELDS)) CRITICAL_FIELDS
     = filter (\<lambda>f. \<not> is_field_present r f) [''medications'', ''allergies'', ''assessment'']"
proof -
  have "filter (\<lambda>f. f \<in> set (filter (\<lambda>f. \<not> is_field_present r f) REQUIRED_FIELDS)) CRITICAL_FIELDS
        = filter (\<lambda>f. \<not> is_field_present r f) CRITICAL_FIELDS"
  proof (rule filter_cong [OF refl])
    fix x assume "x \<in> set CRITICAL_FIELDS"
    then have "x \<in> set REQUIRED_FIELDS"
      by (auto simp: CRITICAL_FIELDS_def REQUIRED_FIELDS_def)
    then show "(x \<in> set (filter (\<lambda>f. \<not> is_field_present r f) REQUIRED_FIELDS))
               = (\<not> is_field_present r x)"
      by simp
  qed
  then show ?thesis by (simp only: CRITICAL_FIELDS_def)
qed

lemma strip_empty_iff: "strip s = [] \<longleftrightarrow> list_all is_space s"
proof
  assume "strip s = []"
  then have all: "\<forall>c \<in> set (dropWhile is_space s). is_space c"
    by (simp add: strip_def dropWhile_eq_Nil_conv del: set_dropWhileD)
  show "list_all is_space s"
  proof (rule ccontr)
    assume "\<not> list_all is_space s"
    then have ne: "dropWhile is_space s \<noteq> []"
      by (auto simp: dropWhile_eq_Nil_conv list_all_iff)
    then have "\<not> is_space (hd (dropWhile is_space s))"
      by (rule hd_dropWhile)
    then show False using all ne by (meson hd_in_set)
  qed
next
  assume "list_all is_space s"
  then have d: "dropWhile is_space s = []"
    by (induction s) auto
  show "strip s = []"
    by (simp only: strip_def d rev.simps dropWhile.simps)
qed

lemma split_from_count:
  "length (split_from cur s) =
     (if cur = [] then spec_count_tokens True s else Suc (spec_count_tokens False s))"
  by (induction s arbitrary: cur) auto

lemma split_count: "length (split s) = spec_count_tokens True s"
  by (simp add: split_def split_from_count)

lemma str_present:
  "(case opt_attr v of AttrNone \<Rightarrow> False | AttrList n \<Rightarrow> n \<noteq> 0 | AttrStr s \<Rightarrow> strip s \<noteq> [])
     = (\<not> spec_str_missing v)"
  by (cases v) (simp_all add: opt_attr_def spec_str_missing_def strip_empty_iff)

lemma required_present:
  "is_field_present r ''chief_complaint'' = (\<not> spec_str_missing (chief_complaint r))"
  "is_field_present r ''hpi'' = (\<not> spec_str_missing (hpi r))"
  "is_field_present r ''assessment'' = (assessment r \<noteq> [])"
  "is_field_present r ''plan'' = (\<not> spec_str_missing (plan r))"
  "is_field_present r ''medications'' = (medications r \<noteq> [])"
  "is_field_present r ''allergies'' = (allergies r \<noteq> [])"
  by (simp_all add: is_field_present_def getattr_def str_present)


lemma required_confidence:
  "(case dict_get CONFIDENCE_NUMERIC (field_confidence r ''chief_complaint'') of
      None \<Rightarrow> 33 / 100 | Some x \<Rightarrow> x) = spec_str_confidence (chief_complaint r)"
  "(case dict_get CONFIDENCE_NUMERIC (field_confidence r ''hpi'') of
      None \<Rightarrow> 33 / 100 | Some x \<Rightarrow> x) = spec_str_confidence (hpi r)"
  "(case dict_get CONFIDENCE_NUMERIC (field_confidence r ''assessment'') of
      None \<Rightarrow> 33 / 100 | Some x \<Rightarrow> x) = spec_list_confidence (assessment r)"
  "(case dict_get CONFIDENCE_NUMERIC (field_confidence r ''plan'') of
      None \<Rightarrow> 33 / 100 | Some x \<Rightarrow> x) = spec_str_confidence (plan r)"
  "(case dict_get CONFIDENCE_NUMERIC (field_confidence r ''medications'') of
      None \<Rightarrow> 33 / 100 | Some x \<Rightarrow> x) = spec_list_confidence (medications r)"
  "(case dict_get CONFIDENCE_NUMERIC (field_confidence r ''allergies'') of
      None \<Rightarrow> 33 / 100 | Some x \<Rightarrow> x) = spec_list_confidence (allergies r)"
  by (auto simp: field_confidence_def required_present getattr_def opt_attr_def
      CONFIDENCE_NUMERIC_def spec_str_confidence_def spec_list_confidence_def split_count
      spec_str_missing_def Let_def Suc_le_eq
      split: option.splits)

lemma missing_count:
  "length (filter (\<lambda>f. \<not> is_field_present r f) REQUIRED_FIELDS) + spec_present_required r = 6"
  by (simp add: REQUIRED_FIELDS_def required_present spec_present_required_def)

lemma missing_critical_count:
  "length (filter (\<lambda>f. f \<in> set (filter (\<lambda>f. \<not> is_field_present r f) REQUIRED_FIELDS))
             CRITICAL_FIELDS) = spec_missing_critical r"
  unfolding missing_critical_eq
  by (simp add: required_present spec_missing_critical_def)

lemma confidence_values:
  "map (\<lambda>(k, v). case dict_get CONFIDENCE_NUMERIC v of None \<Rightarrow> 33 / 100 | Some x \<Rightarrow> x)
     (compute_confidence r) =
   [spec_str_confidence (chief_complaint r), spec_str_confidence (hpi r),
    spec_list_confidence (assessment r), spec_str_confidence (plan r),
    spec_list_confidence (medications r), spec_list_confidence (allergies r)]"
  by (simp add: compute_confidence_eq REQUIRED_FIELDS_def required_confidence)

lemma completeness_before_rounding:
  "compute_completeness (filter (\<lambda>f. \<not> is_field_present r f) REQUIRED_FIELDS)
     (compute_confidence r) = max 0 (min 1 (spec_weighted_sum r))"
proof -
  have len: "length REQUIRED_FIELDS = 6" "length CRITICAL_FIELDS = 3"
    by (simp_all add: REQUIRED_FIELDS_def CRITICAL_FIELDS_def)
  have "int (length (filter (\<lambda>f. \<not> is_field_present r f) REQUIRED_FIELDS))
          = 6 - int (spec_present_required r)"
    using missing_count [of r] by linarith
  then have "rat_of_int (int (length (filter (\<lambda>f. \<not> is_field_present r f)
                      REQUIRED_FIELDS))) = of_int (6 - int (spec_present_required r))"
    by (simp only:)
  then have pres: "rat_of_nat (length (filter (\<lambda>f. \<not> is_field_present r f) REQUIRED_FIELDS))
                     = 6 - rat_of_nat (spec_present_required r)"
    by simp
  show ?thesis
    unfolding compute_completeness_def Let_def confidence_values missing_critical_count len
      spec_weighted_sum_def spec_mean_confidence_def
    by (simp add: pres add.assoc del: filter.simps)
qed


lemma str_confidence_form:
  "\<exists>k::int. even k \<and> spec_str_confidence v = of_int k / 200"
proof -
  have "spec_str_confidence v = 33 / 100 \<or> spec_str_confidence v = 66 / 100
        \<or> spec_str_confidence v = 1"
    unfolding spec_str_confidence_def by (cases v) simp_all
  then consider "spec_str_confidence v = 33 / 100" | "spec_str_confidence v = 66 / 100"
    | "spec_str_confidence v = 1"
    by blast
  then show ?thesis
  proof cases
    case 1
    then have "even (66::int) \<and> spec_str_confidence v = of_int 66 / 200" by simp
    then show ?thesis by blast
  next
    case 2
    then have "even (132::int) \<and> spec_str_confidence v = of_int 132 / 200" by simp
    then show ?thesis by blast
  next
    case 3
    then have "even (200::int) \<and> spec_str_confidence v = of_int 200 / 200" by simp
    then show ?thesis by blast
  qed
qed

lemma list_confidence_form:
  "\<exists>k::int. even k \<and> spec_list_confidence xs = of_int k / 200"
proof (cases "xs = []")
  case True
  then have "even (66::int) \<and> spec_list_confidence xs = of_int 66 / 200"
    by (simp add: spec_list_confidence_def)
  then show ?thesis by blast
next
  case False
  then have "even (200::int) \<and> spec_list_confidence xs = of_int 200 / 200"
    by (simp add: spec_list_confidence_def)
  then show ?thesis by blast
qed

lemma weighted_sum_form:
  "\<exists>N::int. even N \<and> spec_weighted_sum r = of_int N / 6000"
proof -
  obtain k1 k2 k3 k4 k5 k6 :: int where
    k1: "even k1" "spec_str_confidence (chief_complaint r) = of_int k1 / 200" and
    k2: "even k2" "spec_str_confidence (hpi r) = of_int k2 / 200" and
    k3: "even k3" "spec_list_confidence (assessment r) = of_int k3 / 200" and
    k4: "even k4" "spec_str_confidence (plan r) = of_int k4 / 200" and
    k5: "even k5" "spec_list_confidence (medications r) = of_int k5 / 200" and
    k6: "even k6" "spec_list_confidence (allergies r) = of_int k6 / 200"
    using str_confidence_form list_confidence_form by metis
  let ?N = "500 * int (spec_present_required r) + 1800
            - 600 * int (spec_missing_critical r) + (k1 + k2 + k3 + k4 + k5 + k6)"
  have "even ?N" using k1(1) k2(1) k3(1) k4(1) k5(1) k6(1) by simp
  moreover have "spec_weighted_sum r = of_int ?N / 6000"
    by (simp add: spec_weighted_sum_def spec_mean_confidence_def k1(2) k2(2) k3(2) k4(2)
        k5(2) k6(2) field_simps)
  ultimately show ?thesis by blast
qed

lemma clamped_form:
  "\<exists>M::int. even M \<and> max 0 (min 1 (spec_weighted_sum r)) = of_int M / 6000"
proof -
  obtain N :: int where N: "even N" "spec_weighted_sum r = of_int N / 6000"
    using weighted_sum_form by blast
  consider "spec_weighted_sum r \<le> 0" | "1 \<le> spec_weighted_sum r"
    | "0 < spec_weighted_sum r" "spec_weighted_sum r < 1"
    by linarith
  then show ?thesis
  proof cases
    case 1
    then have "even (0::int) \<and> max 0 (min 1 (spec_weighted_sum r)) = of_int 0 / 6000"
      by (simp add: max_def min_def)
    then show ?thesis by blast
  next
    case 2
    then have "even (6000::int) \<and> max 0 (min 1 (spec_weighted_sum r)) = of_int 6000 / 6000"
      by (simp add: max_def min_def)
    then show ?thesis by blast
  next
    case 3
    then have "max 0 (min 1 (spec_weighted_sum r)) = of_int N / 6000"
      using N(2) by (simp add: max_def min_def)
    then show ?thesis using N(1) by blast
  qed
qed

lemma round3_off_tie:
  assumes "even (M::int)"
  shows "round3 (of_int M / 6000) = of_int (round (1000 * (of_int M / 6000 :: rat))) / 1000"
proof -
  let ?y = "of_int M / 6 :: rat"
  let ?f = "\<lfloor>?y\<rfloor>"
  let ?d = "?y - of_int ?f"
  have y: "(of_int M / 6000 :: rat) * 1000 = ?y" "1000 * (of_int M / 6000 :: rat) = ?y"
    by simp_all
  have lo: "of_int ?f \<le> ?y" and hi: "?y < of_int ?f + 1"
    by linarith+
  have no_tie: "?d \<noteq> 1 / 2"
  proof
    assume "?d = 1 / 2"
    then have "(of_int M :: rat) = of_int (6 * ?f + 3)"
      by (simp add: field_simps)
    then have "M = 6 * ?f + 3"
      by (simp only: of_int_eq_iff)
    then show False using assms by presburger
  qed
  show ?thesis
  proof (cases "?d < 1 / 2")
    case True
    then have "round ?y = ?f"
      unfolding round_def using lo by (intro floor_unique) linarith+
    then show ?thesis
      using True by (simp add: round3_def Let_def y)
  next
    case False
    then have gt: "?d > 1 / 2" using no_tie by linarith
    then have "round ?y = ?f + 1"
      unfolding round_def using hi by (intro floor_unique) (simp, linarith)
    then show ?thesis
      using gt by (simp add: round3_def Let_def y)
  qed
qed

text \<open>
  C5. The completeness score that \<open>validate\<close> returns is
  \<open>0.5 * (present_required_fields / 6) + 0.3 * (1 - missing_critical_fields / 3)
  + 0.2 * mean(confidence)\<close> with \<open>low = 0.33\<close>, \<open>medium = 0.66\<close>, \<open>high = 1.0\<close>, clamped to
  \<open>[0, 1]\<close> and rounded to three decimals. The sum is a multiple of \<open>1/3000\<close>, so it never
  lies halfway between two thousandths, and rounding half to even is rounding to the
  nearest.
\<close>

theorem completeness_formula:
  "completeness_score (validate r) = spec_completeness r"
proof -
  obtain M :: int where M: "even M" "max 0 (min 1 (spec_weighted_sum r)) = of_int M / 6000"
    using clamped_form by blast
  have "completeness_score (validate r) = round3 (max 0 (min 1 (spec_weighted_sum r)))"
    by (simp add: validate_def Let_def completeness_before_rounding)
  also have "\<dots> = of_int (round (1000 * max 0 (min 1 (spec_weighted_sum r)))) / 1000"
    unfolding M(2) by (rule round3_off_tie [OF M(1)])
  finally show ?thesis
    by (simp only: spec_completeness_def)
qed

theorem completeness_formula_witness:
  "completeness_score (validate empty_record) = 66 / 1000
   \<and> completeness_score (validate complete_record) = 977 / 1000
   \<and> completeness_score (validate blank_hpi_record) = 872 / 1000"
proof -
  have "spec_completeness empty_record = 66 / 1000"
    by code_simp
  moreover have "spec_completeness complete_record = 977 / 1000"
    by code_simp
  moreover have "spec_completeness blank_hpi_record = 872 / 1000"
    by code_simp
  ultimately show ?thesis
    by (simp only: completeness_formula simp_thms)
qed

lemma validate_missing_fields:
  "missing_fields (validate r) = filter (\<lambda>f. \<not> is_field_present r f) REQUIRED_FIELDS"
  by (simp add: validate_def Let_def)

lemma validate_confidence:
  "confidence_by_field (validate r) = map (\<lambda>f. (f, field_confidence r f)) REQUIRED_FIELDS"
  by (simp add: validate_def Let_def compute_confidence_eq)

lemma dict_get_tabulate:
  "f \<in> set xs \<Longrightarrow> dict_get (map (\<lambda>k. (k, g k)) xs) f = Some (g f)"
  by (induction xs) auto

lemma filter_member_filter:
  "filter (\<lambda>f. f \<in> set (filter Q xs)) xs = filter Q xs"
  by (rule filter_cong) auto

text \<open>
  C9. In the flags that \<open>validate\<close> returns, the keys of \<open>confidence_by_field\<close> are exactly
  the six required fields, \<open>missing_fields\<close> holds required fields only, in the order of
  their declaration, and every missing field has confidence \<open>low\<close>.
\<close>

theorem validate_flags_shape:
  "map fst (confidence_by_field (validate r)) = REQUIRED_FIELDS
   \<and> fst ` set (confidence_by_field (validate r)) =
       {''chief_complaint'', ''hpi'', ''assessment'', ''plan'', ''medications'', ''allergies''}
   \<and> set (missing_fields (validate r)) \<subseteq> set REQUIRED_FIELDS
   \<and> missing_fields (validate r) =
       filter (\<lambda>f. f \<in> set (missing_fields (validate r))) REQUIRED_FIELDS
   \<and> (\<forall>f \<in> set (missing_fields (validate r)).
         dict_get (confidence_by_field (validate r)) f = Some ''low'')"
proof -
  have keys: "map fst (confidence_by_field (validate r)) = REQUIRED_FIELDS"
    by (simp add: validate_confidence comp_def)
  have "fst ` set (confidence_by_field (validate r)) = set REQUIRED_FIELDS"
    using keys by (metis set_map)
  then have keyset: "fst ` set (confidence_by_field (validate r)) =
       {''chief_complaint'', ''hpi'', ''assessment'', ''plan'', ''medications'', ''allergies''}"
    by (simp only: REQUIRED_FIELDS_def list.set)
  have sub: "set (missing_fields (validate r)) \<subseteq> set REQUIRED_FIELDS"
    by (simp add: validate_missing_fields)
  have ord: "missing_fields (validate r) =
       filter (\<lambda>f. f \<in> set (missing_fields (validate r))) REQUIRED_FIELDS"
    by (simp only: validate_missing_fields filter_member_filter)
  have low: "\<forall>f \<in> set (missing_fields (validate r)).
         dict_get (confidence_by_field (validate r)) f = Some ''low''"
  proof
    fix f assume "f \<in> set (missing_fields (validate r))"
    then have "f \<in> set REQUIRED_FIELDS" and "\<not> is_field_present r f"
      by (simp_all add: validate_missing_fields)
    then show "dict_get (confidence_by_field (validate r)) f = Some ''low''"
      by (simp add: validate_confidence dict_get_tabulate field_confidence_def)
  qed
  show ?thesis using keys keyset sub ord low by blast
qed

lemma empty_record_missing:
  "missing_fields (validate empty_record) = REQUIRED_FIELDS"
  by (simp add: validate_missing_fields REQUIRED_FIELDS_def is_field_present_def getattr_def
      opt_attr_def empty_record_def)

theorem validate_flags_shape_witness:
  "map fst (confidence_by_field (validate empty_record)) = REQUIRED_FIELDS
   \<and> missing_fields (validate empty_record) = REQUIRED_FIELDS
   \<and> ''plan'' \<in> set (missing_fields (validate empty_record))
   \<and> dict_get (confidence_by_field (validate empty_record)) ''plan'' = Some ''low''"
proof -
  have m: "''plan'' \<in> set (missing_fields (validate empty_record))"
    by (simp add: empty_record_missing REQUIRED_FIELDS_def)
  show ?thesis
    using validate_flags_shape [of empty_record] m empty_record_missing by blast
qed

subsection \<open>The repair loop\<close>

lemma apply_repair_error:
  "apply_repair ext st r t fs l = (Inl e, st') \<Longrightarrow> e = ValidationError"
  by (auto simp: apply_repair_def split: prod.splits option.splits)

lemma repair_loop_counts:
  "validations (repair_loop ext t l m as st r fl nv ne) \<le> nv + length as
   \<and> extractor_calls (repair_loop ext t l m as st r fl nv ne)
       \<le> ne + length (filter (\<lambda>a. int a < m) as)"
proof (induction as arbitrary: st r fl nv ne)
  case Nil
  then show ?case by simp
next
  case (Cons a as)
  have v: "\<forall>st r fl ne. validations (repair_loop ext t l m as st r fl (Suc nv) ne)
             \<le> Suc (nv + length as)"
    using Cons.IH [of _ _ _ "Suc nv"] by simp
  have e0: "\<forall>st r fl nv. extractor_calls (repair_loop ext t l m as st r fl nv ne)
             \<le> ne + length (filter (\<lambda>a. int a < m) as)"
    using Cons.IH by simp
  then have e0': "\<forall>st r fl nv. extractor_calls (repair_loop ext t l m as st r fl nv ne)
             \<le> Suc (ne + length (filter (\<lambda>a. int a < m) as))"
    using le_SucI by blast
  have e1: "\<forall>st r fl nv. extractor_calls (repair_loop ext t l m as st r fl nv (Suc ne))
             \<le> Suc (ne + length (filter (\<lambda>a. int a < m) as))"
    using Cons.IH [of _ _ _ _ "Suc ne"] by simp
  show ?case
  proof (cases ext)
    case None
    then show ?thesis using v e0 e0' by (simp add: Let_def)
  next
    case (Some ex)
    then show ?thesis
      using v e0 e0' e1
      by (simp add: Let_def split: prod.splits sum.splits)
  qed
qed

lemma repair_loop_flags:
  assumes "as \<noteq> [] \<longrightarrow> \<not> int (last as) < m"
    and "as = [] \<longrightarrow> fl = Some (validate r)"
    and "result (repair_loop ext t l m as st r fl nv ne) = Inr (r', f')"
  shows "f' = validate r'"
  using assms
proof (induction as arbitrary: st r fl nv ne)
  case Nil
  then show ?case by auto
next
  case (Cons a as)
  have last: "as \<noteq> [] \<longrightarrow> \<not> int (last as) < m"
    using Cons.prems(1) by auto
  have stay: "\<forall>st nv ne. result (repair_loop ext t l m as st r (Some (validate r)) nv ne)
                = Inr (r', f') \<longrightarrow> f' = validate r'"
    using Cons.IH [OF last, of "Some (validate r)" r] by simp
  have move: "int a < m \<longrightarrow> (\<forall>st r2 nv ne.
                result (repair_loop ext t l m as st r2 (Some (validate r)) nv ne)
                = Inr (r', f') \<longrightarrow> f' = validate r')"
  proof
    assume "int a < m"
    then have "as \<noteq> []" using Cons.prems(1) by auto
    then show "\<forall>st r2 nv ne.
                result (repair_loop ext t l m as st r2 (Some (validate r)) nv ne)
                = Inr (r', f') \<longrightarrow> f' = validate r'"
      using Cons.IH [OF last, of "Some (validate r)"] by simp
  qed
  show ?case
  proof (cases ext)
    case None
    then show ?thesis
      using Cons.prems(3) stay by (auto simp: Let_def split: if_splits)
  next
    case (Some ex)
    then show ?thesis
      using Cons.prems(3) stay move
      by (auto simp: Let_def split: prod.splits sum.splits if_splits)
  qed
qed

lemma repair_loop_error:
  assumes "as \<noteq> [] \<longrightarrow> \<not> int (last as) < m"
    and "as = [] \<longrightarrow> fl \<noteq> None"
    and "result (repair_loop ext t l m as st r fl nv ne) = Inl e"
  shows "e = ValidationError
         \<and> validations (repair_loop ext t l m as st r fl nv ne) < nv + length as"
  using assms
proof (induction as arbitrary: st r fl nv ne)
  case Nil
  then show ?case by (auto split: option.splits)
next
  case (Cons a as)
  have last: "as \<noteq> [] \<longrightarrow> \<not> int (last as) < m"
    using Cons.prems(1) by auto
  have rec: "\<forall>st r2 f ne. result (repair_loop ext t l m as st r2 (Some f) (Suc nv) ne) = Inl e
               \<longrightarrow> e = ValidationError
                   \<and> validations (repair_loop ext t l m as st r2 (Some f) (Suc nv) ne)
                       < Suc (nv + length as)"
    using Cons.IH [OF last, of "Some _" _ _ "Suc nv"] by simp
  have nonempty: "int a < m \<longrightarrow> as \<noteq> []"
    using Cons.prems(1) by auto
  show ?case
  proof (cases ext)
    case None
    then show ?thesis
      using Cons.prems(3) rec
      by (auto simp: Let_def split: if_splits)
  next
    case (Some ex)
    show ?thesis
    proof (cases "int a < m")
      case True
      then have ne: "as \<noteq> []" using nonempty by simp
      show ?thesis
        using Cons.prems(3) rec True ne Some
        by (auto simp: Let_def split: prod.splits sum.splits if_splits
            dest: apply_repair_error)
    next
      case False
      then show ?thesis
        using Cons.prems(3) rec Some
        by (auto simp: Let_def split: if_splits)
    qed
  qed
qed

lemma attempts_last:
  "0 \<le> m \<Longrightarrow> [0 ..< nat (m + 1)] \<noteq> [] \<and> \<not> int (last [0 ..< nat (m + 1)]) < m"
proof -
  assume "0 \<le> m"
  then have "nat (m + 1) = Suc (nat m)" by simp
  then have "[0 ..< nat (m + 1)] = [0 ..< nat m] @ [nat m]" by simp
  then show ?thesis using \<open>0 \<le> m\<close> by simp
qed

text \<open>
  C6. With \<open>max_repairs = 2\<close>, whatever the record, the note text and the extractor (none,
  one that raises, one that never improves the record), \<open>validate_and_repair\<close> returns
  after at most 3 calls of \<open>validate\<close> and at most 2 calls of the extractor; what it
  returns is the record with the flags of that record; and a run that reaches the third
  validation returns the record and its flags, whatever the score: nothing is raised for a
  record that is still incomplete (the one exception that can leave the function is
  pydantic's, on an ill-typed update, before the cap).
\<close>

theorem repair_loop_bound:
  "validations (validate_and_repair r t ext st l MAX_REPAIR_ATTEMPTS) \<le> 3
   \<and> extractor_calls (validate_and_repair r t ext st l MAX_REPAIR_ATTEMPTS) \<le> 2
   \<and> (\<forall>r' f'. result (validate_and_repair r t ext st l MAX_REPAIR_ATTEMPTS) = Inr (r', f')
         \<longrightarrow> f' = validate r')
   \<and> (\<forall>e. result (validate_and_repair r t ext st l MAX_REPAIR_ATTEMPTS) = Inl e
         \<longrightarrow> e = ValidationError
             \<and> validations (validate_and_repair r t ext st l MAX_REPAIR_ATTEMPTS) < 3)
   \<and> (validations (validate_and_repair r t ext st l MAX_REPAIR_ATTEMPTS) = 3
         \<longrightarrow> (\<exists>r'. result (validate_and_repair r t ext st l MAX_REPAIR_ATTEMPTS)
                      = Inr (r', validate r')))"
proof -
  let ?as = "[0 ..< nat (MAX_REPAIR_ATTEMPTS + 1)]"
  let ?run = "repair_loop ext t l MAX_REPAIR_ATTEMPTS ?as st r None 0 0"
  have run: "validate_and_repair r t ext st l MAX_REPAIR_ATTEMPTS = ?run"
    by (simp add: validate_and_repair_def)
  have len: "length ?as = 3"
    by (simp add: MAX_REPAIR_ATTEMPTS_def)
  have "length (filter (\<lambda>a. int a < MAX_REPAIR_ATTEMPTS) ?as) \<le> 2"
    by (simp add: MAX_REPAIR_ATTEMPTS_def upt_rec)
  then have counts: "validations ?run \<le> 3 \<and> extractor_calls ?run \<le> 2"
    using repair_loop_counts [of ext t l MAX_REPAIR_ATTEMPTS ?as st r None 0 0] len
    by linarith
  have last: "?as \<noteq> [] \<longrightarrow> \<not> int (last ?as) < MAX_REPAIR_ATTEMPTS"
    and ne: "?as \<noteq> []"
    using attempts_last [of MAX_REPAIR_ATTEMPTS] by (simp_all add: MAX_REPAIR_ATTEMPTS_def)
  have flags: "\<forall>r' f'. result ?run = Inr (r', f') \<longrightarrow> f' = validate r'"
    using repair_loop_flags [OF last, of None r ext t l st 0 0] ne by blast
  have err: "\<forall>e. result ?run = Inl e \<longrightarrow> e = ValidationError \<and> validations ?run < 3"
    using repair_loop_error [OF last, of None ext t l st r 0 0] ne len by auto
  have cap: "validations ?run = 3 \<longrightarrow> (\<exists>r'. result ?run = Inr (r', validate r'))"
  proof
    assume three: "validations ?run = 3"
    show "\<exists>r'. result ?run = Inr (r', validate r')"
    proof (cases "result ?run")
      case (Inl e)
      then show ?thesis using err three by auto
    next
      case (Inr p)
      then show ?thesis using flags by (cases p) auto
    qed
  qed
  show ?thesis
    unfolding run using counts flags err cap by blast
qed

lemma empty_record_flags:
  "\<not> COMPLETENESS_THRESHOLD \<le> completeness_score (validate empty_record)"
  "contradictions (validate empty_record) = []"
  "missing_fields (validate empty_record) \<noteq> []"
  by code_simp+

lemma never_improves_repair:
  "apply_repair never_improves st empty_record t fs l = (Inr empty_record, Suc st)"
  by (simp add: apply_repair_def never_improves_def model_validate_def model_dump_def
      empty_record_def opt_str_field_def list_field_def dump_opt_def)

theorem repair_loop_bound_witness:
  "validations (validate_and_repair empty_record ''Test note text'' (Some never_improves)
      (0::nat) ''en'' MAX_REPAIR_ATTEMPTS) = 3
   \<and> extractor_calls (validate_and_repair empty_record ''Test note text''
      (Some never_improves) (0::nat) ''en'' MAX_REPAIR_ATTEMPTS) = 2
   \<and> result (validate_and_repair empty_record ''Test note text'' (Some never_improves)
      (0::nat) ''en'' MAX_REPAIR_ATTEMPTS) = Inr (empty_record, validate empty_record)"
proof -
  let ?run = "validate_and_repair empty_record ''Test note text'' (Some never_improves)
      (0::nat) ''en'' MAX_REPAIR_ATTEMPTS"
  have as: "[0 ..< (3::nat)] = [0, 1, 2]"
    by (simp add: upt_rec)
  have v: "validations ?run = 3" and e: "extractor_calls ?run = 2"
    and r: "result ?run = Inr (empty_record, validate empty_record)"
    by (simp_all add: validate_and_repair_def as Let_def empty_record_flags
        never_improves_repair MAX_REPAIR_ATTEMPTS_def)
  show ?thesis
    using repair_loop_bound [of empty_record "''Test note text''" "Some never_improves"
        "0::nat" "''en''"] v e r
    by simp
qed

lemma repair_loop_no_extractor:
  "repair_loop None t l m as st r fl nv ne =
     \<lparr>result = (if as = [] then (case fl of None \<Rightarrow> Inl UnboundLocalError
                                  | Some flags \<Rightarrow> Inr (r, flags))
                else Inr (r, validate r)),
      validations =
        (if as = [] then nv
         else if COMPLETENESS_THRESHOLD \<le> completeness_score (validate r)
                 \<and> contradictions (validate r) = [] then Suc nv
         else nv + length as),
      extractor_calls = ne, ext_state = st\<rparr>"
  by (induction as arbitrary: fl nv) (auto simp: Let_def)

text \<open>
  C7, as the code has it. With no extractor and \<open>max_repairs \<ge> 0\<close>, \<open>validate_and_repair\<close>
  returns the input record unchanged with \<open>validate\<close> of it and never calls an extractor;
  it validates once when the record passes (score at least 0.8 and no contradiction) and
  \<open>max_repairs + 1\<close> times otherwise, each pass giving the same flags.
\<close>

theorem no_extractor_returns_input:
  "0 \<le> m \<Longrightarrow>
     result (validate_and_repair r t None st l m) = Inr (r, validate r)
     \<and> extractor_calls (validate_and_repair r t None st l m) = 0
     \<and> ext_state (validate_and_repair r t None st l m) = st
     \<and> validations (validate_and_repair r t None st l m) =
         (if COMPLETENESS_THRESHOLD \<le> completeness_score (validate r)
             \<and> contradictions (validate r) = [] then 1
          else nat m + 1)"
proof -
  assume m: "0 \<le> m"
  then have len: "length [0 ..< nat (m + 1)] = nat m + 1"
    by (simp add: nat_add_distrib)
  have ne: "[0 ..< nat (m + 1)] \<noteq> []"
    using attempts_last [OF m] by simp
  show ?thesis
    unfolding validate_and_repair_def repair_loop_no_extractor
    using ne len by simp
qed

lemma test_record_flags:
  "\<not> COMPLETENESS_THRESHOLD \<le> completeness_score (validate test_record)"
  by code_simp

theorem no_extractor_returns_input_witness:
  "(0::int) \<le> MAX_REPAIR_ATTEMPTS
   \<and> result (validate_and_repair test_record ''Test note text'' None () ''en''
        MAX_REPAIR_ATTEMPTS) = Inr (test_record, validate test_record)
   \<and> extractor_calls (validate_and_repair test_record ''Test note text'' None () ''en''
        MAX_REPAIR_ATTEMPTS) = 0
   \<and> validations (validate_and_repair test_record ''Test note text'' None () ''en''
        MAX_REPAIR_ATTEMPTS) = 3"
proof -
  have h: "(0::int) \<le> MAX_REPAIR_ATTEMPTS" by (simp add: MAX_REPAIR_ATTEMPTS_def)
  show ?thesis
    using h no_extractor_returns_input [OF h, of test_record "''Test note text''" "()" "''en''"]
      test_record_flags
    by (simp add: MAX_REPAIR_ATTEMPTS_def)
qed

text \<open>
  The claim as the spec words it (exactly one validation pass) fails on the empty record:
  with no extractor and the default \<open>max_repairs = 2\<close> the loop validates three times.
\<close>

theorem no_extractor_three_passes:
  "validations (validate_and_repair empty_record ''Test note text'' None () ''en''
     MAX_REPAIR_ATTEMPTS) = 3
   \<and> validations (validate_and_repair empty_record ''Test note text'' None () ''en''
     MAX_REPAIR_ATTEMPTS) \<noteq> 1"
  by (simp add: validate_and_repair_def repair_loop_no_extractor empty_record_flags
      MAX_REPAIR_ATTEMPTS_def)

subsection \<open>Enqueue\<close>




subsection \<open>The outbound batch\<close>

lemma prepare_item_demo:
  "prepare_item L row = Inr it \<Longrightarrow>
     si_note_id it = note_id row \<and> (mode row = ''demo'' \<longrightarrow> raw_note_text it = None)"
  unfolding prepare_item_def make_SyncItem_def
  by (auto simp: Let_def split: sum.splits json.splits option.splits prod.splits if_splits)

lemma assemble_items:
  "assemble L now pending db its ids = (its', ids', db') \<Longrightarrow> it \<in> set its' \<Longrightarrow>
     it \<in> set its \<or> (\<exists>row \<in> set pending. prepare_item L row = Inr it)"
proof (induction pending arbitrary: db its ids)
  case Nil
  then show ?case by simp
next
  case (Cons row pending)
  show ?case
  proof (cases "prepare_item L row")
    case (Inl e)
    then show ?thesis using Cons.IH Cons.prems by (fastforce simp: Let_def)
  next
    case (Inr item)
    then show ?thesis using Cons.IH Cons.prems by (fastforce simp: Let_def)
  qed
qed

lemma get_pending_subset: "set (get_pending n db) \<subseteq> set db"
  unfolding get_pending_def sql_limit_def
  by (auto dest: in_set_takeD)

lemma outbound_items_built:
  assumes "it \<in> set (outbound_items (sync_batch_outbound L st now db))"
  shows "\<exists>row \<in> set (get_pending (SYNC_BATCH_SIZE st) db). prepare_item L row = Inr it"
proof -
  obtain its ids db' where a:
    "assemble L now (get_pending (SYNC_BATCH_SIZE st) db) db [] [] = (its, ids, db')"
    by (metis prod_cases3)
  have "it \<in> set its"
    using assms a
    by (auto simp: outbound_items_def sync_batch_outbound_def Let_def make_SyncRequest_def
        split: if_splits sum.splits batch.splits)
  then show ?thesis
    using assemble_items [OF a] by auto
qed

lemma get_pending_queued:
  "row \<in> set (get_pending n db) \<Longrightarrow> row \<in> set db \<and> status row = ''queued''"
  unfolding get_pending_def sql_limit_def
  by (auto dest: in_set_takeD split: if_splits)

text \<open>
  C3. Every item of the batch that \<open>sync_batch\<close> assembles is built from a queued row of
  the table, and an item built from a row whose mode is \<open>demo\<close> has no raw note text,
  whatever the decrypted payload held. So when every row of the queue is in demo mode, as
  after three saves in demo mode, every outbound item has \<open>raw_note_text = None\<close>.
\<close>

theorem demo_raw_text_stripped:
  "(\<forall>it \<in> set (outbound_items (sync_batch_outbound L st now db)).
      (\<exists>row \<in> set db. status row = ''queued'' \<and> prepare_item L row = Inr it
                       \<and> note_id row = si_note_id it)
      \<and> (\<forall>row. prepare_item L row = Inr it \<and> mode row = ''demo''
                 \<longrightarrow> raw_note_text it = None))
   \<and> ((\<forall>row \<in> set db. mode row = ''demo'')
        \<longrightarrow> (\<forall>it \<in> set (outbound_items (sync_batch_outbound L st now db)).
               raw_note_text it = None))"
proof -
  have built: "\<exists>row \<in> set db. status row = ''queued'' \<and> prepare_item L row = Inr it
                 \<and> note_id row = si_note_id it"
    if member: "it \<in> set (outbound_items (sync_batch_outbound L st now db))" for it
  proof -
    obtain row where "row \<in> set (get_pending (SYNC_BATCH_SIZE st) db)"
      and "prepare_item L row = Inr it"
      using outbound_items_built [OF member] by blast
    then show ?thesis
      using get_pending_queued prepare_item_demo by metis
  qed
  have stripped: "raw_note_text it = None"
    if "prepare_item L row = Inr it" and "mode row = ''demo''" for row it
    using prepare_item_demo [OF that(1)] that(2) by simp
  show ?thesis
    using built stripped by blast
qed

lemma three_demo_notes_modes:
  "\<forall>row \<in> set three_demo_notes. mode row = ''demo''"
  by (simp add: three_demo_notes_def enqueue_def insert_or_replace_def Let_def)

lemma three_demo_notes_batch:
  "map si_note_id (outbound_items (sync_batch_outbound example_libs example_settings
      ''2026-01-01 10:05:00'' three_demo_notes)) = [''n1'', ''n2'', ''n3'']"
  by code_simp

theorem demo_raw_text_stripped_witness:
  "map mode three_demo_notes = [''demo'', ''demo'', ''demo'']
   \<and> json_loads example_libs ''A'' =
       Some (JObj [(''record'', JObj [(''chief_complaint'', JStr ''Cough for three days'')]),
                   (''flags'', JObj [(''completeness_score'', JNum (149 / 1000))]),
                   (''raw_note_text'', JStr ''Pt reports cough x3 days'')])
   \<and> map si_note_id (outbound_items (sync_batch_outbound example_libs example_settings
        ''2026-01-01 10:05:00'' three_demo_notes)) = [''n1'', ''n2'', ''n3'']
   \<and> map raw_note_text (outbound_items (sync_batch_outbound example_libs example_settings
        ''2026-01-01 10:05:00'' three_demo_notes)) = [None, None, None]"
proof -
  let ?items = "outbound_items (sync_batch_outbound example_libs example_settings
        ''2026-01-01 10:05:00'' three_demo_notes)"
  have modes: "map mode three_demo_notes = [''demo'', ''demo'', ''demo'']"
    by (simp add: three_demo_notes_def enqueue_def insert_or_replace_def Let_def)
  have loads: "json_loads example_libs ''A'' =
       Some (JObj [(''record'', JObj [(''chief_complaint'', JStr ''Cough for three days'')]),
                   (''flags'', JObj [(''completeness_score'', JNum (149 / 1000))]),
                   (''raw_note_text'', JStr ''Pt reports cough x3 days'')])"
    by (simp add: example_libs_def example_loads_def payload_a_def)
  have "\<forall>it \<in> set ?items. raw_note_text it = None"
    using demo_raw_text_stripped [of example_libs example_settings "''2026-01-01 10:05:00''"
        three_demo_notes] three_demo_notes_modes
    by blast
  then have "map raw_note_text ?items = replicate (length ?items) None"
    by (simp add: map_replicate_const [symmetric] cong: map_cong)
  moreover have "length ?items = 3"
    using three_demo_notes_batch by (metis length_map length_Cons list.size(3) numeral_3_eq_3)
  ultimately have raw: "map raw_note_text ?items = [None, None, None]"
    by (simp add: numeral_3_eq_3)
  show ?thesis
    using modes loads three_demo_notes_batch raw by blast
qed

subsection \<open>The ciphertext is bound to the note it was filed under\<close>

















subsection \<open>Decrypt for display\<close>

lemma decrypt_rows_map:
  "decrypt_rows L rows results = results @ map (decrypted_entry L) rows"
  by (induction rows arbitrary: results) simp_all

lemma dict_get_set:
  "dict_get (dict_set d k v) k' = (if k' = k then Some v else dict_get d k')"
  by (induction d) auto

lemma dict_get_append:
  "dict_get (d @ e) k = (case dict_get d k of Some v \<Rightarrow> Some v | None \<Rightarrow> dict_get e k)"
  by (induction d) auto

lemma dict_get_merge:
  "dict_get (dict_merge d e) k =
     (case dict_get (rev e) k of Some v \<Rightarrow> Some v | None \<Rightarrow> dict_get d k)"
proof (induction e arbitrary: d)
  case Nil
  then show ?case by simp
next
  case (Cons p e)
  obtain k' v' where p: "p = (k', v')" by (cases p)
  show ?case
    by (simp add: p Cons.IH dict_get_set dict_get_append split: option.splits)
qed

text \<open>
  C8, as the code has it. Whatever answer the engine gives to the query,
  \<open>get_all_decrypted\<close> leaves the table as it was and returns exactly one entry per stored
  row, each computed from its own row only: a row that cannot be decrypted gets its error
  entry and the other rows get theirs. The entry of a row whose ciphertext decrypts to a
  JSON object is the metadata \<open>note_id\<close>, \<open>mode\<close>, \<open>status\<close>, \<open>created_at\<close> updated with the
  fields of the payload: every payload field is in the entry, and a metadata field keeps the
  row's value unless the payload has a field of the same name. The entry of any other row
  is the metadata with \<open>error = 'Decryption failed'\<close>.
\<close>

theorem get_all_decrypted_entries:
  assumes "select_order_desc db rows"
  shows "snd (get_all_decrypted L rows db) = db
   \<and> fst (get_all_decrypted L rows db) = map (decrypted_entry L) rows
   \<and> mset (fst (get_all_decrypted L rows db)) = image_mset (decrypted_entry L) (mset db)
   \<and> length (fst (get_all_decrypted L rows db)) = length db
   \<and> (case decrypt_payload L (note_id r) (ciphertext r) of
        Inr (JObj payload) \<Rightarrow>
          (\<forall>k. dict_get (decrypted_entry L r) k =
                 (case dict_get (rev payload) k of
                    Some v \<Rightarrow> Some v
                  | None \<Rightarrow> dict_get (metadata_entry r) k))
      | _ \<Rightarrow> decrypted_entry L r =
               [(''note_id'', JStr (note_id r)), (''mode'', JStr (mode r)),
                (''status'', JStr (status r)), (''created_at'', JStr (created_at r)),
                (''error'', JStr ''Decryption failed'')])"
proof -
  have perm: "mset rows = mset db"
    using assms by (simp add: select_order_desc_def)
  have listing: "fst (get_all_decrypted L rows db) = map (decrypted_entry L) rows"
    by (simp add: get_all_decrypted_def decrypt_rows_map)
  have each: "mset (fst (get_all_decrypted L rows db))
                = image_mset (decrypted_entry L) (mset db)"
    using perm by (simp add: listing)
  have count: "length (fst (get_all_decrypted L rows db)) = length db"
    using perm by (simp add: listing) (metis size_mset)
  have entry: "case decrypt_payload L (note_id r) (ciphertext r) of
        Inr (JObj payload) \<Rightarrow>
          (\<forall>k. dict_get (decrypted_entry L r) k =
                 (case dict_get (rev payload) k of
                    Some v \<Rightarrow> Some v
                  | None \<Rightarrow> dict_get (metadata_entry r) k))
      | _ \<Rightarrow> decrypted_entry L r =
               [(''note_id'', JStr (note_id r)), (''mode'', JStr (mode r)),
                (''status'', JStr (status r)), (''created_at'', JStr (created_at r)),
                (''error'', JStr ''Decryption failed'')]"
    by (simp add: decrypted_entry_def dict_get_merge metadata_entry_def
        split: sum.splits json.splits option.splits)
  show ?thesis
    using listing each count entry by (simp add: get_all_decrypted_def)
qed

lemma damaged_queue_rows: "select_order_desc damaged_queue (rev damaged_queue)"
  unfolding select_order_desc_def
proof
  show "mset (rev damaged_queue) = mset damaged_queue" by simp
  show "sorted (rev (map created_at (rev damaged_queue)))" by code_simp
qed

theorem get_all_decrypted_entries_witness:
  "select_order_desc damaged_queue (rev damaged_queue)
   \<and> map ciphertext damaged_queue =
       [[CHR ''n'', CHR 0x01, CHR ''a'', CHR ''n'', CHR ''a'', CHR ''1'', CHR ''p'', CHR ''A''],
        ''garbage'',
        [CHR ''n'', CHR 0x03, CHR ''a'', CHR ''n'', CHR ''a'', CHR ''3'', CHR ''p'', CHR ''C'']]
   \<and> snd (get_all_decrypted example_libs (rev damaged_queue) damaged_queue) = damaged_queue
   \<and> fst (get_all_decrypted example_libs (rev damaged_queue) damaged_queue) =
       [[(''note_id'', JStr ''n3''), (''mode'', JStr ''demo''), (''status'', JStr ''queued''),
         (''created_at'', JStr ''2026-01-01 10:00:03''),
         (''record'', JObj [(''plan'', JStr ''Rest and fluids'')]), (''flags'', JObj [])],
        [(''note_id'', JStr ''n2''), (''mode'', JStr ''demo''), (''status'', JStr ''queued''),
         (''created_at'', JStr ''2026-01-01 10:00:02''),
         (''error'', JStr ''Decryption failed'')],
        [(''note_id'', JStr ''n1''), (''mode'', JStr ''demo''), (''status'', JStr ''queued''),
         (''created_at'', JStr ''2026-01-01 10:00:01''),
         (''record'', JObj [(''chief_complaint'', JStr ''Cough for three days'')]),
         (''flags'', JObj [(''completeness_score'', JNum (149 / 1000))]),
         (''raw_note_text'', JStr ''Pt reports cough x3 days'')]]"
proof -
  have ct: "map ciphertext damaged_queue =
       [[CHR ''n'', CHR 0x01, CHR ''a'', CHR ''n'', CHR ''a'', CHR ''1'', CHR ''p'', CHR ''A''],
        ''garbage'',
        [CHR ''n'', CHR 0x03, CHR ''a'', CHR ''n'', CHR ''a'', CHR ''3'', CHR ''p'', CHR ''C'']]"
    by code_simp
  have entries: "map (decrypted_entry example_libs) (rev damaged_queue) =
       [[(''note_id'', JStr ''n3''), (''mode'', JStr ''demo''), (''status'', JStr ''queued''),
         (''created_at'', JStr ''2026-01-01 10:00:03''),
         (''record'', JObj [(''plan'', JStr ''Rest and fluids'')]), (''flags'', JObj [])],
        [(''note_id'', JStr ''n2''), (''mode'', JStr ''demo''), (''status'', JStr ''queued''),
         (''created_at'', JStr ''2026-01-01 10:00:02''),
         (''error'', JStr ''Decryption failed'')],
        [(''note_id'', JStr ''n1''), (''mode'', JStr ''demo''), (''status'', JStr ''queued''),
         (''created_at'', JStr ''2026-01-01 10:00:01''),
         (''record'', JObj [(''chief_complaint'', JStr ''Cough for three days'')]),
         (''flags'', JObj [(''completeness_score'', JNum (149 / 1000))]),
         (''raw_note_text'', JStr ''Pt reports cough x3 days'')]]"
    by code_simp
  show ?thesis
    using get_all_decrypted_entries [OF damaged_queue_rows, of example_libs]
      damaged_queue_rows ct entries
    by simp
qed

text \<open>
  The claim as the spec words it fails where the payload has a field named like a
  metadata field: the row is \<open>queued\<close>, the entry of the listing says \<open>synced\<close>.
\<close>

theorem payload_overrides_metadata:
  "map status clashing_queue = [''queued'']
   \<and> map (\<lambda>e. dict_get e ''status'')
         (fst (get_all_decrypted example_libs clashing_queue clashing_queue))
       = [Some (JStr ''synced'')]"
  by code_simp

end
